theory Spec2Isabelle
  imports Main
begin

section \<open>JavaScript strings and the character classes of the regular expressions\<close>

text \<open>
  A JavaScript string is a sequence of UTF-16 code units. A code unit is modelled by its
  number; the theorems below hold for every list of numbers, in particular for every list
  of code units. \<open>js\<close> turns an ASCII literal into such a string.
\<close>

type_synonym jsstring = "nat list"

definition js :: "string \<Rightarrow> jsstring" where
  "js s = map of_char s"

text \<open>
  The class \<^verbatim>\<open>\s\<close> of a regular expression and the characters removed by
  \<^verbatim>\<open>String.prototype.trim\<close> are the same set: the white space and line terminator
  code units of ECMAScript.
\<close>

definition is_space :: "nat \<Rightarrow> bool" where
  "is_space c \<longleftrightarrow>
     c = 9 \<or> c = 10 \<or> c = 11 \<or> c = 12 \<or> c = 13 \<or> c = 32 \<or> c = 160 \<or> c = 5760 \<or>
     (8192 \<le> c \<and> c \<le> 8202) \<or> c = 8232 \<or> c = 8233 \<or> c = 8239 \<or> c = 8287 \<or>
     c = 12288 \<or> c = 65279"

text \<open>The class \<^verbatim>\<open>\d\<close>: the ten ASCII digits.\<close>

definition is_digit :: "nat \<Rightarrow> bool" where
  "is_digit c \<longleftrightarrow> 48 \<le> c \<and> c \<le> 57"

definition trim :: "jsstring \<Rightarrow> jsstring" where
  "trim s = rev (dropWhile is_space (rev (dropWhile is_space s)))"

section \<open>Regular expressions\<close>

text \<open>
  The two patterns of the source are anchored at both ends and use only character classes,
  single characters, concatenation and \<^verbatim>\<open>+\<close>. \<open>test\<close> is
  \<^verbatim>\<open>RegExp.prototype.test\<close> for such an anchored pattern: it decides whether the whole
  string matches, by taking the derivative of the pattern at each code unit.
\<close>

datatype rx = Never | Empty | Class "nat \<Rightarrow> bool" | Seq rx rx | Alt rx rx | Star rx

definition OneOrMore :: "rx \<Rightarrow> rx" where
  "OneOrMore r = Seq r (Star r)"

fun nullable :: "rx \<Rightarrow> bool" where
  "nullable Never = False"
| "nullable Empty = True"
| "nullable (Class p) = False"
| "nullable (Seq r s) = (nullable r \<and> nullable s)"
| "nullable (Alt r s) = (nullable r \<or> nullable s)"
| "nullable (Star r) = True"

fun deriv :: "nat \<Rightarrow> rx \<Rightarrow> rx" where
  "deriv c Never = Never"
| "deriv c Empty = Never"
| "deriv c (Class p) = (if p c then Empty else Never)"
| "deriv c (Seq r s) =
     (if nullable r then Alt (Seq (deriv c r) s) (deriv c s) else Seq (deriv c r) s)"
| "deriv c (Alt r s) = Alt (deriv c r) (deriv c s)"
| "deriv c (Star r) = Seq (deriv c r) (Star r)"

fun test :: "rx \<Rightarrow> jsstring \<Rightarrow> bool" where
  "test r [] = nullable r"
| "test r (c # cs) = test (deriv c r) cs"

text \<open>The strings a pattern denotes; used only to reason about \<open>test\<close>.\<close>

inductive_set star :: "'a list set \<Rightarrow> 'a list set" for L :: "'a list set" where
  star_nil: "[] \<in> star L"
| star_app: "u \<in> L \<Longrightarrow> v \<in> star L \<Longrightarrow> u @ v \<in> star L"

fun lang :: "rx \<Rightarrow> jsstring set" where
  "lang Never = {}"
| "lang Empty = {[]}"
| "lang (Class p) = {[c] | c. p c}"
| "lang (Seq r s) = {u @ v | u v. u \<in> lang r \<and> v \<in> lang s}"
| "lang (Alt r s) = lang r \<union> lang s"
| "lang (Star r) = star (lang r)"

section \<open>validateEmail and validatePhone\<close>

text \<open>
  \<^verbatim>\<open>/^[^\s@]+@[^\s@]+\.[^\s@]+$/\<close>; 64 is \<^verbatim>\<open>@\<close> and 46 is the dot.
\<close>

definition email_re :: rx where
  "email_re =
     Seq (OneOrMore (Class (\<lambda>c. \<not> (is_space c \<or> c = 64))))
      (Seq (Class (\<lambda>c. c = 64))
        (Seq (OneOrMore (Class (\<lambda>c. \<not> (is_space c \<or> c = 64))))
          (Seq (Class (\<lambda>c. c = 46))
            (OneOrMore (Class (\<lambda>c. \<not> (is_space c \<or> c = 64)))))))"

definition validateEmail :: "jsstring \<Rightarrow> bool" where
  "validateEmail email = test email_re email"

text \<open>
  \<^verbatim>\<open>/^[\d\s\+\-\(\)]+$/\<close>; 43, 45, 40 and 41 are \<^verbatim>\<open>+ - ( )\<close>.
  \<open>strip_non_digits\<close> is \<^verbatim>\<open>phone.replace(/\D/g, '')\<close>: every code unit of the class
  \<^verbatim>\<open>\D\<close> (not a digit) is replaced by the empty string.
\<close>

definition phone_re :: rx where
  "phone_re =
     OneOrMore (Class (\<lambda>c. is_digit c \<or> is_space c \<or> c = 43 \<or> c = 45 \<or> c = 40 \<or> c = 41))"

definition strip_non_digits :: "jsstring \<Rightarrow> jsstring" where
  "strip_non_digits s = filter (\<lambda>c. \<not> (\<not> is_digit c)) s"

definition validatePhone :: "jsstring \<Rightarrow> bool" where
  "validatePhone phone \<longleftrightarrow> test phone_re phone \<and> length (strip_non_digits phone) \<ge> 7"

section \<open>Numbers: parseInt and the comparison with a length\<close>

text \<open>
  \<^verbatim>\<open>parseInt(string)\<close> without a radix: leading white space is skipped, a sign is
  read, a prefix \<^verbatim>\<open>0x\<close> or \<^verbatim>\<open>0X\<close> selects radix 16, and the longest run of digits
  of the radix is the value; with no digit the result is \<^verbatim>\<open>NaN\<close>. Nothing is thrown.
  The value is kept as an exact integer (JavaScript rounds from \<open>2^53\<close> on to a double;
  a string is shorter than that, so the comparison with a length is the same).
\<close>

datatype jsnum = NaN | Num int

definition is_hex_digit :: "nat \<Rightarrow> bool" where
  "is_hex_digit c \<longleftrightarrow> is_digit c \<or> (65 \<le> c \<and> c \<le> 70) \<or> (97 \<le> c \<and> c \<le> 102)"

definition digit_value :: "nat \<Rightarrow> int" where
  "digit_value c =
     (if is_digit c then int c - 48 else if c \<le> 70 then int c - 55 else int c - 87)"

definition parseInt :: "jsstring \<Rightarrow> jsnum" where
  "parseInt string =
     (let s = dropWhile is_space string;
          sign = (if s \<noteq> [] \<and> hd s = 45 then - 1 else 1);
          s1 = (if s \<noteq> [] \<and> (hd s = 43 \<or> hd s = 45) then tl s else s);
          hex = (take 2 s1 = [48, 120] \<or> take 2 s1 = [48, 88]);
          radix = (if hex then 16 else 10);
          s2 = (if hex then drop 2 s1 else s1);
          z = takeWhile (if hex then is_hex_digit else is_digit) s2
      in if z = [] then NaN
         else Num (sign * foldl (\<lambda>n c. n * radix + digit_value c) 0 z))"

text \<open>\<^verbatim>\<open>value.length < minLength\<close>: a comparison with \<^verbatim>\<open>NaN\<close> is false.\<close>

fun js_less :: "nat \<Rightarrow> jsnum \<Rightarrow> bool" where
  "js_less n NaN = False"
| "js_less n (Num m) = (int n < m)"

text \<open>The number inside the template literal of the min-length message.\<close>

function decimal :: "nat \<Rightarrow> jsstring" where
  "decimal n = (if n < 10 then [48 + n] else decimal (n div 10) @ [48 + n mod 10])"
  by pat_completeness auto
termination
  by (relation "measure id") auto

fun number_to_string :: "jsnum \<Rightarrow> jsstring" where
  "number_to_string NaN = js ''NaN''"
| "number_to_string (Num i) = (if i < 0 then 45 # decimal (nat (- i)) else decimal (nat i))"

section \<open>Fields and their error annotation\<close>

text \<open>
  A field is an \<^verbatim>\<open>input\<close>, \<^verbatim>\<open>textarea\<close> or \<^verbatim>\<open>select\<close> element found below a
  form, so it has a parent element. The record holds what the code reads and writes:
  the attributes, the value, the border colour, and \<open>ferrors\<close>, the messages of the
  \<^verbatim>\<open>.field-error\<close> elements below \<^verbatim>\<open>field.parentElement\<close> in document order.
  \<^verbatim>\<open>querySelector\<close> returns the first of them and \<^verbatim>\<open>appendChild\<close> adds the
  last one. Every field is taken with a parent element of its own. The markup and the style
  text of an annotation are constants and are left out; \<open>fminlength\<close> is \<open>None\<close> when
  \<^verbatim>\<open>hasAttribute('minlength')\<close> is false. \<open>fdisabled\<close> tells whether the control is
  disabled, \<open>fchecked\<close> is the checkedness of a checkbox or radio button and
  \<open>fdefaultChecked\<close> its \<^verbatim>\<open>checked\<close> attribute; \<open>validateField\<close> reads none of the
  three, \<^verbatim>\<open>new FormData(form)\<close> and \<^verbatim>\<open>form.reset()\<close> do.
\<close>

record form_field =
  fname :: jsstring
  ftype :: jsstring
  fvalue :: jsstring
  fdefault :: jsstring
  fdisabled :: bool
  fchecked :: bool
  fdefaultChecked :: bool
  frequired :: bool
  fminlength :: "jsstring option"
  fborder :: jsstring
  ferrors :: "jsstring list"

definition msg_required :: jsstring where
  "msg_required = js ''Este campo es obligatorio''"

definition msg_email :: jsstring where
  "msg_email = js ''Por favor ingresa un email v'' @ [225] @ js ''lido''"

definition msg_phone :: jsstring where
  "msg_phone = js ''Por favor ingresa un tel'' @ [233] @ js ''fono v'' @ [225] @ js ''lido''"

definition msg_minlength :: "jsnum \<Rightarrow> jsstring" where
  "msg_minlength minLength =
     [77, 237] @ js ''nimo '' @ number_to_string minLength @ js '' caracteres requeridos''"

definition clearFieldError :: "form_field \<Rightarrow> form_field" where
  "clearFieldError f = f\<lparr>fborder := [], ferrors := drop 1 (ferrors f)\<rparr>"

definition showFieldError :: "form_field \<Rightarrow> jsstring \<Rightarrow> form_field" where
  "showFieldError f message =
     f\<lparr>fborder := js ''#ef4444'', ferrors := drop 1 (ferrors f) @ [message]\<rparr>"

text \<open>The verdict and the field as the call leaves it.\<close>

definition validateField :: "form_field \<Rightarrow> bool \<times> form_field" where
  "validateField f =
     (let val = trim (fvalue f);
          isRequired = frequired f;
          f1 = clearFieldError f
      in if isRequired \<and> val = [] then (False, showFieldError f1 msg_required)
         else if ftype f = js ''email'' \<and> val \<noteq> [] \<and> \<not> validateEmail val
           then (False, showFieldError f1 msg_email)
         else if ftype f = js ''tel'' \<and> val \<noteq> [] \<and> \<not> validatePhone val
           then (False, showFieldError f1 msg_phone)
         else (case fminlength f of
                 None \<Rightarrow> (True, f1)
               | Some a \<Rightarrow>
                   (let minLength = parseInt a
                    in if js_less (length val) minLength
                       then (False, showFieldError f1 (msg_minlength minLength))
                       else (True, f1))))"

text \<open>
  The four checks of \<open>validateField\<close> one by one, for the statement of their order:
  when a check fails, and the message it shows.
\<close>

datatype check = Required | Email | Phone | MinLength

fun fails :: "check \<Rightarrow> form_field \<Rightarrow> bool" where
  "fails Required f = (frequired f \<and> trim (fvalue f) = [])"
| "fails Email f =
     (ftype f = js ''email'' \<and> trim (fvalue f) \<noteq> [] \<and> \<not> validateEmail (trim (fvalue f)))"
| "fails Phone f =
     (ftype f = js ''tel'' \<and> trim (fvalue f) \<noteq> [] \<and> \<not> validatePhone (trim (fvalue f)))"
| "fails MinLength f =
     (case fminlength f of
        None \<Rightarrow> False
      | Some a \<Rightarrow> js_less (length (trim (fvalue f))) (parseInt a))"

fun message_of :: "check \<Rightarrow> form_field \<Rightarrow> jsstring" where
  "message_of Required f = msg_required"
| "message_of Email f = msg_email"
| "message_of Phone f = msg_phone"
| "message_of MinLength f =
     (case fminlength f of None \<Rightarrow> [] | Some a \<Rightarrow> msg_minlength (parseInt a))"

definition first_failing :: "form_field \<Rightarrow> check option" where
  "first_failing f = find (\<lambda>c. fails c f) [Required, Email, Phone, MinLength]"

text \<open>
  What happens to a field while the page lives: the \<^verbatim>\<open>blur\<close> listener (and the submit
  handler) call \<open>validateField\<close>, the \<^verbatim>\<open>focus\<close> listener calls
  \<open>clearFieldError\<close>, and the user or \<^verbatim>\<open>form.reset()\<close> changes the value.
\<close>

datatype field_event = Blur | Focus | Edit jsstring

fun field_step :: "form_field \<Rightarrow> field_event \<Rightarrow> form_field" where
  "field_step f Blur = snd (validateField f)"
| "field_step f Focus = clearFieldError f"
| "field_step f (Edit v) = f\<lparr>fvalue := v\<rparr>"

definition field_run :: "field_event list \<Rightarrow> form_field \<Rightarrow> form_field" where
  "field_run es f = foldl field_step f es"

text \<open>Fields to run \<open>validateField\<close> on.\<close>

definition field_blank :: form_field where
  "field_blank =
     \<lparr>fname = js ''nombre'', ftype = js ''text'', fvalue = js ''  '', fdefault = [],
      fdisabled = False, fchecked = False, fdefaultChecked = False,
      frequired = True, fminlength = Some (js ''3''), fborder = [], ferrors = [msg_email]\<rparr>"

definition field_bad_email :: form_field where
  "field_bad_email =
     \<lparr>fname = js ''email'', ftype = js ''email'', fvalue = js ''a@b'', fdefault = [],
      fdisabled = False, fchecked = False, fdefaultChecked = False,
      frequired = True, fminlength = Some (js ''10''), fborder = [], ferrors = []\<rparr>"

definition field_bad_phone :: form_field where
  "field_bad_phone =
     \<lparr>fname = js ''telefono'', ftype = js ''tel'', fvalue = js ''12-34'', fdefault = [],
      fdisabled = False, fchecked = False, fdefaultChecked = False,
      frequired = False, fminlength = None, fborder = [], ferrors = []\<rparr>"

definition field_short :: form_field where
  "field_short =
     \<lparr>fname = js ''mensaje'', ftype = js ''textarea'', fvalue = js ''ab'', fdefault = [],
      fdisabled = False, fchecked = False, fdefaultChecked = False,
      frequired = True, fminlength = Some (js ''5''), fborder = [], ferrors = []\<rparr>"

text \<open>
  \<open>validateField\<close> once more, with the exceptions of JavaScript as values. An
  exception is a \<^verbatim>\<open>TypeError\<close> of the runtime or a value thrown by a callback. In
  \<open>validateField\<close> and the two functions it calls, one expression can throw:
  \<^verbatim>\<open>field.parentElement.querySelector\<close>, when \<^verbatim>\<open>parentElement\<close> is \<^verbatim>\<open>null\<close>,
  which it is for an element that is not in a document. It is evaluated after the border
  colour is set. \<^verbatim>\<open>field.value\<close> is a string for every \<^verbatim>\<open>input\<close>,
  \<^verbatim>\<open>textarea\<close> and \<^verbatim>\<open>select\<close> element; \<^verbatim>\<open>parseInt\<close>, the comparison and the
  template literal throw nothing. The flag \<open>attached\<close> tells whether
  \<^verbatim>\<open>field.parentElement\<close> is an element: it is for every field the listeners pass,
  which are found below a form.
\<close>

datatype exn = TypeError | Thrown nat

definition clearFieldError_exn :: "bool \<Rightarrow> form_field \<Rightarrow> exn + form_field" where
  "clearFieldError_exn attached f =
     (let f1 = f\<lparr>fborder := []\<rparr>
      in if attached then Inr (f1\<lparr>ferrors := drop 1 (ferrors f1)\<rparr>) else Inl TypeError)"

definition showFieldError_exn :: "bool \<Rightarrow> form_field \<Rightarrow> jsstring \<Rightarrow> exn + form_field" where
  "showFieldError_exn attached f message =
     (let f1 = f\<lparr>fborder := js ''#ef4444''\<rparr>
      in if attached then Inr (f1\<lparr>ferrors := drop 1 (ferrors f1) @ [message]\<rparr>)
         else Inl TypeError)"

text \<open>\<^verbatim>\<open>showFieldError(field, message); return false\<close>.\<close>

definition show_and_return_false :: "exn + form_field \<Rightarrow> exn + bool \<times> form_field" where
  "show_and_return_false shown = (case shown of Inl e \<Rightarrow> Inl e | Inr f \<Rightarrow> Inr (False, f))"

definition validateField_exn :: "bool \<Rightarrow> form_field \<Rightarrow> exn + bool \<times> form_field" where
  "validateField_exn attached f =
     (let val = trim (fvalue f);
          isRequired = frequired f
      in case clearFieldError_exn attached f of
           Inl e \<Rightarrow> Inl e
         | Inr f1 \<Rightarrow>
             if isRequired \<and> val = []
               then show_and_return_false (showFieldError_exn attached f1 msg_required)
             else if ftype f = js ''email'' \<and> val \<noteq> [] \<and> \<not> validateEmail val
               then show_and_return_false (showFieldError_exn attached f1 msg_email)
             else if ftype f = js ''tel'' \<and> val \<noteq> [] \<and> \<not> validatePhone val
               then show_and_return_false (showFieldError_exn attached f1 msg_phone)
             else (case fminlength f of
                     None \<Rightarrow> Inr (True, f1)
                   | Some a \<Rightarrow>
                       (let minLength = parseInt a
                        in if js_less (length val) minLength
                           then show_and_return_false
                                  (showFieldError_exn attached f1 (msg_minlength minLength))
                           else Inr (True, f1))))"

text \<open>
  The value of a \<^verbatim>\<open>minlength\<close> attribute is, by HTML, a valid non-negative integer:
  one or more ASCII digits. Every other attribute text is malformed. \<open>validateField\<close>
  does not look at this: it hands the text to \<^verbatim>\<open>parseInt\<close>.
\<close>

definition valid_non_negative_integer :: "jsstring \<Rightarrow> bool" where
  "valid_non_negative_integer a \<longleftrightarrow> a \<noteq> [] \<and> list_all is_digit a"

text \<open>A field whose \<^verbatim>\<open>minlength\<close> attribute is a number followed by a unit.\<close>

definition field_malformed :: form_field where
  "field_malformed =
     \<lparr>fname = js ''mensaje'', ftype = js ''textarea'', fvalue = js ''ab'', fdefault = [],
      fdisabled = False, fchecked = False, fdefaultChecked = False,
      frequired = True, fminlength = Some (js ''5px''), fborder = [], ferrors = []\<rparr>"

section \<open>The notification centre\<close>

text \<open>
  The source defines \<^verbatim>\<open>showNotification\<close> twice under the same global name: the
  form-feedback variant (class \<^verbatim>\<open>form-notification\<close>, a close button, dismissal after
  5000 ms, guarded by \<^verbatim>\<open>notification.parentElement\<close>) and the page-feedback variant
  (class \<^verbatim>\<open>notification\<close>, dismissal after 3000 ms, unguarded). Every call in the
  source goes through the global name, which is bound to the definition loaded last: a page
  runs one of the two, and the variant is a parameter.

  The state is what the functions read and write: the notification elements below
  \<^verbatim>\<open>document.body\<close> in document order, the pending \<^verbatim>\<open>setTimeout\<close> callbacks, and
  the identity of the next created element. A callback holds the element it was created
  for. The pending callbacks may run in any order: their delays are recorded and not used.
  The icon, the colour and the style text of a notification follow from its type and are
  left out.
\<close>

datatype severity = Success | Error | Info | Warning

datatype variant = FormFeedback | PageFeedback

datatype animation = SlideInRight | SlideOutRight

record notification =
  nid :: nat
  ntext :: jsstring
  ntype :: severity
  nanimation :: animation

datatype callback = AutoRemove nat | RemoveNode nat

fun element_of :: "callback \<Rightarrow> nat" where
  "element_of (AutoRemove i) = i"
| "element_of (RemoveNode i) = i"

record timer =
  tdelay :: nat
  tcallback :: callback

record notification_center =
  body :: "notification list"
  timers :: "timer list"
  next_id :: nat

definition initial :: notification_center where
  "initial = \<lparr>body = [], timers = [], next_id = 0\<rparr>"

definition dismiss_after :: "variant \<Rightarrow> nat" where
  "dismiss_after v = (case v of FormFeedback \<Rightarrow> 5000 | PageFeedback \<Rightarrow> 3000)"

text \<open>
  \<^verbatim>\<open>existingNotification.remove()\<close> for the element \<^verbatim>\<open>querySelector\<close> finds, the
  first one; then \<^verbatim>\<open>createElement\<close>, \<^verbatim>\<open>appendChild\<close> and \<^verbatim>\<open>setTimeout\<close>.
\<close>

definition removeExisting :: "notification_center \<Rightarrow> notification_center" where
  "removeExisting s = s\<lparr>body := drop 1 (body s)\<rparr>"

definition insertNotification ::
  "variant \<Rightarrow> jsstring \<Rightarrow> severity \<Rightarrow> notification_center \<Rightarrow> notification_center" where
  "insertNotification v message type s =
     s\<lparr>body := body s @
          [\<lparr>nid = next_id s, ntext = message, ntype = type, nanimation = SlideInRight\<rparr>],
       timers := timers s @ [\<lparr>tdelay = dismiss_after v, tcallback = AutoRemove (next_id s)\<rparr>],
       next_id := next_id s + 1\<rparr>"

definition showNotification ::
  "variant \<Rightarrow> jsstring \<Rightarrow> severity \<Rightarrow> notification_center \<Rightarrow> notification_center" where
  "showNotification v message type s = insertNotification v message type (removeExisting s)"

definition slideOut :: "nat \<Rightarrow> notification_center \<Rightarrow> notification_center" where
  "slideOut i s =
     s\<lparr>body := map (\<lambda>n. if nid n = i then n\<lparr>nanimation := SlideOutRight\<rparr> else n) (body s)\<rparr>"

definition setTimeout :: "callback \<Rightarrow> nat \<Rightarrow> notification_center \<Rightarrow> notification_center" where
  "setTimeout c d s = s\<lparr>timers := timers s @ [\<lparr>tdelay = d, tcallback = c\<rparr>]\<rparr>"

fun run_callback :: "variant \<Rightarrow> callback \<Rightarrow> notification_center \<Rightarrow> notification_center" where
  "run_callback v (RemoveNode i) s = s\<lparr>body := filter (\<lambda>n. nid n \<noteq> i) (body s)\<rparr>"
| "run_callback FormFeedback (AutoRemove i) s =
     (if i \<in> nid ` set (body s) then setTimeout (RemoveNode i) 300 (slideOut i s) else s)"
| "run_callback PageFeedback (AutoRemove i) s = setTimeout (RemoveNode i) 300 (slideOut i s)"

text \<open>The close button exists in the form-feedback variant only, on an element on display.\<close>

definition closeClick :: "variant \<Rightarrow> nat \<Rightarrow> notification_center \<Rightarrow> notification_center" where
  "closeClick v i s =
     (if v = FormFeedback \<and> i \<in> nid ` set (body s)
      then setTimeout (RemoveNode i) 300 (slideOut i s) else s)"

datatype event = Show jsstring severity | Fire timer | CloseClick nat

fun step :: "variant \<Rightarrow> notification_center \<Rightarrow> event \<Rightarrow> notification_center" where
  "step v s (Show message type) = showNotification v message type s"
| "step v s (Fire t) =
     (if t \<in> set (timers s)
      then run_callback v (tcallback t) (s\<lparr>timers := remove1 t (timers s)\<rparr>) else s)"
| "step v s (CloseClick i) = closeClick v i s"

definition run :: "variant \<Rightarrow> event list \<Rightarrow> notification_center \<Rightarrow> notification_center" where
  "run v es s = foldl (step v) s es"

text \<open>What holds of every state the page reaches from a display without notification.\<close>

definition wf_center :: "notification_center \<Rightarrow> bool" where
  "wf_center s \<longleftrightarrow>
     length (body s) \<le> 1 \<and>
     list_all (\<lambda>n. nid n < next_id s) (body s) \<and>
     list_all (\<lambda>t. element_of (tcallback t) < next_id s) (timers s)"


section \<open>The submit handler of handleFormSubmission\<close>

text \<open>
  The page as the handler sees it: the fields \<^verbatim>\<open>form.querySelectorAll\<close> returns, the
  element \<^verbatim>\<open>form.querySelector('button[type="submit"]')\<close> returns (\<open>None\<close> for
  \<^verbatim>\<open>null\<close>), the notification centre, and the trace of the calls the handler makes to
  its collaborators, in order.
\<close>

record button =
  innerHTML :: jsstring
  disabled :: bool

type_synonym data = "jsstring \<Rightarrow> jsstring option"

datatype effect =
    PreventDefault
  | Transmission nat
  | ConsoleLog data
  | ConsoleError exn
  | Notified jsstring severity
  | OnSuccess data

datatype settlement = Resolved | Rejected exn

datatype outcome = Returns | Throws exn

record page =
  inputs :: "form_field list"
  submitBtn :: "button option"
  center :: notification_center
  trace :: "effect list"

definition msg_fix_errors :: jsstring where
  "msg_fix_errors = js ''Por favor corrige los errores en el formulario''"

definition msg_sent :: jsstring where
  "msg_sent = [161] @ js ''Formulario enviado exitosamente!''"

definition msg_failed :: jsstring where
  "msg_failed = js ''Hubo un error al enviar el formulario. Por favor intenta nuevamente.''"

definition label_sending :: jsstring where
  "label_sending =
     js ''<i class='' @ [34] @ js ''fas fa-spinner fa-spin'' @ [34] @ js ''></i> Enviando...''"

text \<open>
  \<^verbatim>\<open>inputs.forEach\<close> with the flag \<^verbatim>\<open>isValid\<close>: every field is validated, also
  after a failure.
\<close>

fun validate_inputs :: "form_field list \<Rightarrow> bool \<Rightarrow> bool \<times> form_field list" where
  "validate_inputs [] isValid = (isValid, [])"
| "validate_inputs (i # rest) isValid =
     (let (ok, i') = validateField i;
          (isValid', rest') = validate_inputs rest (if \<not> ok then False else isValid)
      in (isValid', i' # rest'))"

text \<open>
  \<^verbatim>\<open>new FormData(form)\<close> builds the entry list of the form, with no submitter. It goes
  through the controls in tree order and leaves out a control that is disabled, a button
  (an \<^verbatim>\<open>input\<close> of type \<^verbatim>\<open>submit\<close>, \<^verbatim>\<open>button\<close>, \<^verbatim>\<open>reset\<close> or
  \<^verbatim>\<open>image\<close>), a checkbox or radio button that is not checked, and a control
  whose name is missing or empty; every other control gives the entry of its name and its
  value. \<^verbatim>\<open>Object.fromEntries\<close> then writes the entries into an object one after the
  other, a later entry of a name replacing an earlier one. File inputs and lists with no
  or several selected options, whose entries are not the name with \<^verbatim>\<open>field.value\<close>,
  are not part of the model, nor are controls outside the form element that name it in a
  \<^verbatim>\<open>form\<close> attribute. Names and values are taken without lone surrogates, which an
  entry would replace.
\<close>

definition is_button :: "jsstring \<Rightarrow> bool" where
  "is_button t \<longleftrightarrow>
     t = js ''submit'' \<or> t = js ''button'' \<or> t = js ''reset'' \<or> t = js ''image''"

definition is_checkable :: "jsstring \<Rightarrow> bool" where
  "is_checkable t \<longleftrightarrow> t = js ''checkbox'' \<or> t = js ''radio''"

fun FormData_entries :: "form_field list \<Rightarrow> (jsstring \<times> jsstring) list" where
  "FormData_entries [] = []"
| "FormData_entries (field # controls) =
     (if fdisabled field \<or> is_button (ftype field) \<or>
         (is_checkable (ftype field) \<and> \<not> fchecked field)
      then FormData_entries controls
      else if fname field = [] then FormData_entries controls
      else (fname field, fvalue field) # FormData_entries controls)"

definition Object_fromEntries :: "(jsstring \<times> jsstring) list \<Rightarrow> data" where
  "Object_fromEntries es = foldl (\<lambda>m (k, v). m(k \<mapsto> v)) Map.empty es"

definition notify :: "variant \<Rightarrow> jsstring \<Rightarrow> severity \<Rightarrow> page \<Rightarrow> page" where
  "notify v message type p =
     p\<lparr>center := showNotification v message type (center p),
       trace := trace p @ [Notified message type]\<rparr>"

text \<open>
  \<^verbatim>\<open>form.reset()\<close> gives every field its default value and its default checkedness
  back. The source registers no listener that cancels the \<^verbatim>\<open>reset\<close> event.
\<close>

definition form_reset :: "page \<Rightarrow> page" where
  "form_reset p =
     p\<lparr>inputs := map (\<lambda>f. f\<lparr>fvalue := fdefault f, fchecked := fdefaultChecked f\<rparr>) (inputs p)\<rparr>"

text \<open>
  The handler is an \<^verbatim>\<open>async\<close> function. \<open>submit_start\<close> is its run up to the
  \<^verbatim>\<open>await\<close>: it has returned, has thrown (the handler's promise is rejected), or waits
  for the transmission with the values it holds in \<^verbatim>\<open>data\<close> and
  \<^verbatim>\<open>originalBtnText\<close>. \<open>Transmission 2000\<close> is the call
  \<^verbatim>\<open>new Promise(resolve => setTimeout(resolve, 2000))\<close>.
\<close>

record pending =
  pdata :: data
  originalBtnText :: jsstring

datatype suspended = Finished page | Raised exn page | Awaiting pending page

definition submit_start :: "variant \<Rightarrow> page \<Rightarrow> suspended" where
  "submit_start v p =
     (let p0 = p\<lparr>trace := trace p @ [PreventDefault]\<rparr>;
          (isValid, inputs') = validate_inputs (inputs p0) True;
          p1 = p0\<lparr>inputs := inputs'\<rparr>
      in if \<not> isValid then Finished (notify v msg_fix_errors Error p1)
         else
           (let formData = FormData_entries (inputs p1);
                data = Object_fromEntries formData
            in case submitBtn p1 of
                 None \<Rightarrow> Raised TypeError p1
               | Some btn \<Rightarrow>
                   Awaiting \<lparr>pdata = data, originalBtnText = innerHTML btn\<rparr>
                     (p1\<lparr>submitBtn := Some (btn\<lparr>innerHTML := label_sending, disabled := True\<rparr>),
                         trace := trace p1 @ [Transmission 2000]\<rparr>)))"

text \<open>
  The rest of the handler, once the awaited promise is settled: the \<^verbatim>\<open>try\<close> block
  (which a rejection leaves at once, and which the callback can leave by throwing), the
  \<^verbatim>\<open>catch\<close> block and the \<^verbatim>\<open>finally\<close> block. \<open>successMessage\<close> and
  \<open>onSuccess\<close> are \<open>None\<close> when the caller passes none.
\<close>

text \<open>\<^verbatim>\<open>successMessage || text\<close>: an absent and an empty message are falsy.\<close>

definition or_default :: "jsstring option \<Rightarrow> jsstring \<Rightarrow> jsstring" where
  "or_default successMessage text =
     (case successMessage of None \<Rightarrow> text | Some m \<Rightarrow> if m = [] then text else m)"

definition try_block ::
  "variant \<Rightarrow> jsstring option \<Rightarrow> (data \<Rightarrow> outcome) option \<Rightarrow> settlement \<Rightarrow> pending \<Rightarrow> page
     \<Rightarrow> exn option \<times> page" where
  "try_block v successMessage onSuccess settled k p =
     (case settled of
        Rejected e \<Rightarrow> (Some e, p)
      | Resolved \<Rightarrow>
          (let p1 = p\<lparr>trace := trace p @ [ConsoleLog (pdata k)]\<rparr>;
               p2 = notify v (or_default successMessage msg_sent) Success p1;
               p3 = form_reset p2
           in case onSuccess of
                None \<Rightarrow> (None, p3)
              | Some callback \<Rightarrow>
                  (case callback (pdata k) of Returns \<Rightarrow> None | Throws e \<Rightarrow> Some e,
                   p3\<lparr>trace := trace p3 @ [OnSuccess (pdata k)]\<rparr>)))"

definition catch_block :: "variant \<Rightarrow> exn \<Rightarrow> page \<Rightarrow> page" where
  "catch_block v e p = notify v msg_failed Error (p\<lparr>trace := trace p @ [ConsoleError e]\<rparr>)"

definition finally_block :: "pending \<Rightarrow> page \<Rightarrow> page" where
  "finally_block k p =
     p\<lparr>submitBtn :=
         map_option (\<lambda>btn. btn\<lparr>innerHTML := originalBtnText k, disabled := False\<rparr>) (submitBtn p)\<rparr>"

definition submit_resume ::
  "variant \<Rightarrow> jsstring option \<Rightarrow> (data \<Rightarrow> outcome) option \<Rightarrow> settlement \<Rightarrow> pending \<Rightarrow> page
     \<Rightarrow> page" where
  "submit_resume v successMessage onSuccess settled k p =
     (let (thrown, p1) = try_block v successMessage onSuccess settled k p;
          p2 = (case thrown of None \<Rightarrow> p1 | Some e \<Rightarrow> catch_block v e p1)
      in finally_block k p2)"

text \<open>
  \<^verbatim>\<open>handleFormSubmission(formId, successMessage, onSuccess)\<close> returns at once when
  there is no form of that id and registers the submit listener otherwise. The function
  below is one run of that listener, from the submit event to its end, with the
  transmission step as a parameter: the settlement of the awaited promise. In the source it
  is \<open>simulated_api_call\<close>, whose executor only ever calls \<^verbatim>\<open>resolve\<close>. The result
  is the exception the listener throws, if any, and the page it leaves.
\<close>

definition simulated_api_call :: "data \<Rightarrow> settlement" where
  "simulated_api_call d = Resolved"

definition handleFormSubmission ::
  "variant \<Rightarrow> jsstring option \<Rightarrow> (data \<Rightarrow> outcome) option \<Rightarrow> (data \<Rightarrow> settlement) \<Rightarrow> page
     \<Rightarrow> exn option \<times> page" where
  "handleFormSubmission v successMessage onSuccess transmission p =
     (case submit_start v p of
        Finished q \<Rightarrow> (None, q)
      | Raised e q \<Rightarrow> (Some e, q)
      | Awaiting k q \<Rightarrow>
          (None, submit_resume v successMessage onSuccess (transmission (pdata k)) k q))"

text \<open>What the rest of the handler adds to the trace, for the four ways it can go.\<close>

definition resume_effects ::
  "jsstring option \<Rightarrow> (data \<Rightarrow> outcome) option \<Rightarrow> settlement \<Rightarrow> data \<Rightarrow> effect list" where
  "resume_effects sm cb st d =
     (case st of
        Rejected e \<Rightarrow> [ConsoleError e, Notified msg_failed Error]
      | Resolved \<Rightarrow>
          [ConsoleLog d, Notified (or_default sm msg_sent) Success] @
          (case cb of
             None \<Rightarrow> []
           | Some g \<Rightarrow>
               OnSuccess d #
               (case g d of
                  Returns \<Rightarrow> []
                | Throws e \<Rightarrow> [ConsoleError e, Notified msg_failed Error])))"

definition new_effects :: "page \<Rightarrow> page \<Rightarrow> effect list" where
  "new_effects p q = drop (length (trace p)) (trace q)"

fun is_transmission :: "effect \<Rightarrow> bool" where
  "is_transmission (Transmission d) = True"
| "is_transmission e = False"

definition all_valid :: "page \<Rightarrow> bool" where
  "all_valid p \<longleftrightarrow> list_all (\<lambda>f. fst (validateField f)) (inputs p)"

text \<open>A page and a callback to run the handler on.\<close>

definition example_input :: form_field where
  "example_input =
     \<lparr>fname = js ''email'', ftype = js ''email'', fvalue = js ''a@b.co'', fdefault = [],
      fdisabled = False, fchecked = False, fdefaultChecked = False,
      frequired = True, fminlength = None, fborder = [], ferrors = []\<rparr>"

definition example_page :: page where
  "example_page =
     \<lparr>inputs = [example_input],
      submitBtn = Some \<lparr>innerHTML = js ''Enviar'', disabled = False\<rparr>,
      center = initial, trace = []\<rparr>"

definition invalid_page :: page where
  "invalid_page = example_page\<lparr>inputs := [example_input\<lparr>fvalue := js ''a@b''\<rparr>]\<rparr>"

definition no_button_page :: page where
  "no_button_page = example_page\<lparr>submitBtn := None\<rparr>"








section \<open>Regular expressions: the matcher decides the language\<close>

lemma nullable_lang: "nullable r \<longleftrightarrow> [] \<in> lang r"
  by (induction r) (auto intro: star.intros)

lemma star_cons:
  "c # w \<in> star L \<longleftrightarrow> (\<exists>u v. w = u @ v \<and> c # u \<in> L \<and> v \<in> star L)"
proof
  assume "c # w \<in> star L"
  then show "\<exists>u v. w = u @ v \<and> c # u \<in> L \<and> v \<in> star L"
  proof (induction "c # w" arbitrary: w rule: star.induct)
    case (star_app u v)
    show ?case
    proof (cases u)
      case Nil
      with star_app show ?thesis by simp
    next
      case (Cons a u')
      with star_app show ?thesis by auto
    qed
  qed
next
  assume "\<exists>u v. w = u @ v \<and> c # u \<in> L \<and> v \<in> star L"
  then obtain u v where "w = u @ v" "c # u \<in> L" "v \<in> star L" by blast
  then have "(c # u) @ v \<in> star L" by (intro star.star_app)
  with \<open>w = u @ v\<close> show "c # w \<in> star L" by simp
qed

lemma lang_deriv: "w \<in> lang (deriv c r) \<longleftrightarrow> c # w \<in> lang r"
proof (induction r arbitrary: w)
  case (Seq r s)
  then show ?case
    by (auto simp: nullable_lang Cons_eq_append_conv)
next
  case (Star r)
  then show ?case by (auto simp: star_cons)
qed auto

lemma test_lang: "test r w \<longleftrightarrow> w \<in> lang r"
  by (induction w arbitrary: r) (simp_all add: nullable_lang lang_deriv)

lemma star_class: "star {[c] | c. p c} = {w. \<forall>c \<in> set w. p c}"
proof (rule set_eqI, rule iffI)
  fix w assume "w \<in> star {[c] | c. p c}"
  then show "w \<in> {w. \<forall>c \<in> set w. p c}"
    by (induction rule: star.induct) auto
next
  fix w assume "w \<in> {w. \<forall>c \<in> set w. p c}"
  then have "\<forall>c \<in> set w. p c" by simp
  then show "w \<in> star {[c] | c. p c}"
  proof (induction w)
    case Nil
    show ?case by (rule star.star_nil)
  next
    case (Cons a w)
    then have "[a] \<in> {[c] | c. p c}" "w \<in> star {[c] | c. p c}" by auto
    then have "[a] @ w \<in> star {[c] | c. p c}" by (rule star.star_app)
    then show ?case by simp
  qed
qed

lemma lang_OneOrMore_Class: "lang (OneOrMore (Class p)) = {w. w \<noteq> [] \<and> (\<forall>c \<in> set w. p c)}"
proof (rule set_eqI, rule iffI)
  fix w
  assume "w \<in> lang (OneOrMore (Class p))"
  then obtain c v where "w = [c] @ v" "p c" "\<forall>x \<in> set v. p x"
    unfolding OneOrMore_def lang.simps star_class by auto
  then show "w \<in> {w. w \<noteq> [] \<and> (\<forall>c \<in> set w. p c)}" by auto
next
  fix w
  assume "w \<in> {w. w \<noteq> [] \<and> (\<forall>c \<in> set w. p c)}"
  then obtain a l where w: "w = a # l" and "p a" "\<forall>x \<in> set l. p x"
    by (cases w) auto
  then have "[a] \<in> lang (Class p)" "l \<in> lang (Star (Class p))"
    by (auto simp: star_class)
  then have "[a] @ l \<in> lang (Seq (Class p) (Star (Class p)))"
    unfolding lang.simps(4) by blast
  with w show "w \<in> lang (OneOrMore (Class p))" by (simp add: OneOrMore_def)
qed

section \<open>validateEmail\<close>

text \<open>
  What the pattern accepts: a non-empty local part, one \<^verbatim>\<open>@\<close>, and a domain with a dot
  that is neither its first nor its last character; no white space and no second
  \<^verbatim>\<open>@\<close> anywhere.
\<close>

lemma validateEmail_iff:
  "validateEmail s \<longleftrightarrow>
     (\<exists>u v w. s = u @ 64 # v @ 46 # w \<and> u \<noteq> [] \<and> v \<noteq> [] \<and> w \<noteq> [] \<and>
        (\<forall>c \<in> set (u @ v @ w). \<not> is_space c \<and> c \<noteq> 64))"
  unfolding validateEmail_def test_lang email_re_def lang.simps(4)[of "OneOrMore _"]
    lang.simps(4)[of "Class _"] lang_OneOrMore_Class lang.simps(3)
  apply (rule iffI)
   apply clarsimp
   apply blast
  apply clarsimp
  apply blast
  done

lemma split_unique:
  "u @ x # v = u' @ x # v' \<Longrightarrow> x \<notin> set u' \<Longrightarrow> x \<notin> set v' \<Longrightarrow> u = u' \<and> v = v'"
proof (induction u arbitrary: u')
  case Nil
  then show ?case by (cases u') auto
next
  case (Cons a u)
  then show ?case by (cases u') auto
qed

lemma email_needs_at: "64 \<notin> set s \<Longrightarrow> \<not> validateEmail s"
  by (auto simp: validateEmail_iff)

lemma email_needs_dot_after_at:
  assumes "s = u @ 64 # v" "46 \<notin> set v"
  shows "\<not> validateEmail s"
proof
  assume "validateEmail s"
  then obtain a b c where s: "s = a @ 64 # b @ 46 # c"
    and cls: "\<forall>x \<in> set (a @ b @ c). \<not> is_space x \<and> x \<noteq> 64"
    unfolding validateEmail_iff by blast
  from cls have "64 \<notin> set a" "64 \<notin> set (b @ 46 # c)" by auto
  with s assms(1) have "v = b @ 46 # c"
    using split_unique[of u 64 v a "b @ 46 # c"] by simp
  with assms(2) show False by simp
qed

lemma email_example: "validateEmail (js ''a@b.co'')"
  by (simp add: validateEmail_def email_re_def OneOrMore_def js_def is_space_def)

text \<open>
  C3. A string without \<^verbatim>\<open>@\<close>, or with an \<^verbatim>\<open>@\<close> that no dot follows, is not a
  valid email; \<^verbatim>\<open>"a@b.co"\<close> is one.
\<close>

theorem validateEmail_rejects_and_accepts:
  "(64 \<notin> set s \<longrightarrow> \<not> validateEmail s) \<and>
   (s = u @ 64 # v \<and> 46 \<notin> set v \<longrightarrow> \<not> validateEmail s) \<and>
   validateEmail (js ''a@b.co'')"
  using email_needs_at email_needs_dot_after_at email_example by blast

theorem validateEmail_rejects_and_accepts_witness:
  "64 \<notin> set (js ''ab.co'') \<and> \<not> validateEmail (js ''ab.co'') \<and>
   js ''a.b@co'' = js ''a.b'' @ 64 # js ''co'' \<and> 46 \<notin> set (js ''co'') \<and>
   \<not> validateEmail (js ''a.b@co'') \<and>
   validateEmail (js ''a@b.co'')"
proof -
  have a: "64 \<notin> set (js ''ab.co'')" by (simp add: js_def)
  have b: "js ''a.b@co'' = js ''a.b'' @ 64 # js ''co'' \<and> 46 \<notin> set (js ''co'')"
    by (simp add: js_def)
  from a validateEmail_rejects_and_accepts[of "js ''ab.co''" "[]" "[]"]
  have "\<not> validateEmail (js ''ab.co'')" by blast
  moreover from b validateEmail_rejects_and_accepts[of "js ''a.b@co''" "js ''a.b''" "js ''co''"]
  have "\<not> validateEmail (js ''a.b@co'')" "validateEmail (js ''a@b.co'')" by blast+
  ultimately show ?thesis using a b by blast
qed

section \<open>validatePhone\<close>

lemma validatePhone_iff:
  "validatePhone s \<longleftrightarrow>
     s \<noteq> [] \<and>
     (\<forall>c \<in> set s. is_digit c \<or> is_space c \<or> c = 43 \<or> c = 45 \<or> c = 40 \<or> c = 41) \<and>
     7 \<le> length (filter is_digit s)"
  by (simp add: validatePhone_def test_lang phone_re_def lang_OneOrMore_Class strip_non_digits_def)

lemma phone_example: "validatePhone (js ''+1 (555) 123-4567'')"
  by (simp add: validatePhone_iff js_def is_digit_def is_space_def)

text \<open>
  C4. A string with fewer than seven digits left after the non-digits are stripped is not a
  valid phone number; \<^verbatim>\<open>"+1 (555) 123-4567"\<close> is one; and a valid phone number is a
  non-empty string of digits, white space, \<^verbatim>\<open>+\<close>, \<^verbatim>\<open>-\<close>, \<^verbatim>\<open>(\<close> and
  \<^verbatim>\<open>)\<close> only.
\<close>

theorem validatePhone_digits_and_alphabet:
  "(length (strip_non_digits s) < 7 \<longrightarrow> \<not> validatePhone s) \<and>
   validatePhone (js ''+1 (555) 123-4567'') \<and>
   (validatePhone s \<longrightarrow>
      s \<noteq> [] \<and>
      (\<forall>c \<in> set s. is_digit c \<or> is_space c \<or> c = 43 \<or> c = 45 \<or> c = 40 \<or> c = 41))"
  using phone_example by (auto simp: validatePhone_iff strip_non_digits_def)

theorem validatePhone_digits_and_alphabet_witness:
  "length (strip_non_digits (js ''12-34 56'')) < 7 \<and> \<not> validatePhone (js ''12-34 56'') \<and>
   validatePhone (js ''+1 (555) 123-4567'') \<and>
   js ''+1 (555) 123-4567'' \<noteq> [] \<and>
   list_all (\<lambda>c. is_digit c \<or> is_space c \<or> c = 43 \<or> c = 45 \<or> c = 40 \<or> c = 41)
     (js ''+1 (555) 123-4567'')"
proof -
  have "length (strip_non_digits (js ''12-34 56'')) < 7"
    by (simp add: strip_non_digits_def js_def is_digit_def)
  with validatePhone_digits_and_alphabet[of "js ''12-34 56''"]
    validatePhone_digits_and_alphabet[of "js ''+1 (555) 123-4567''"]
  show ?thesis unfolding list_all_iff by blast
qed

section \<open>validateField\<close>

lemma validateField_first_failing:
  "validateField f =
     (case first_failing f of
        None \<Rightarrow> (True, clearFieldError f)
      | Some c \<Rightarrow> (False, showFieldError (clearFieldError f) (message_of c f)))"
  by (simp add: validateField_def first_failing_def Let_def split: option.splits)

lemma ferrors_clear: "ferrors (clearFieldError f) = drop 1 (ferrors f)"
  by (simp add: clearFieldError_def)

lemma ferrors_show: "ferrors (showFieldError f m) = drop 1 (ferrors f) @ [m]"
  by (simp add: showFieldError_def)

lemma ferrors_validateField:
  "ferrors (snd (validateField f)) =
     (case first_failing f of
        None \<Rightarrow> drop 1 (ferrors f)
      | Some c \<Rightarrow> drop 2 (ferrors f) @ [message_of c f])"
  by (simp add: validateField_first_failing ferrors_clear ferrors_show numeral_2_eq_2
      split: option.splits)

lemma fst_validateField: "fst (validateField f) \<longleftrightarrow> first_failing f = None"
  by (simp add: validateField_first_failing split: option.splits)

lemma first_failing_cases:
  "(fails Required f \<longrightarrow> first_failing f = Some Required) \<and>
   (\<not> fails Required f \<and> fails Email f \<longrightarrow> first_failing f = Some Email) \<and>
   (\<not> fails Required f \<and> \<not> fails Email f \<and> fails Phone f \<longrightarrow>
      first_failing f = Some Phone) \<and>
   (\<not> fails Required f \<and> \<not> fails Email f \<and> \<not> fails Phone f \<and> fails MinLength f \<longrightarrow>
      first_failing f = Some MinLength) \<and>
   (\<not> fails Required f \<and> \<not> fails Email f \<and> \<not> fails Phone f \<and> \<not> fails MinLength f \<longrightarrow>
      first_failing f = None)"
  by (simp add: first_failing_def)

lemma ferrors_clear_show:
  "ferrors (showFieldError (clearFieldError f) m) = drop 2 (ferrors f) @ [m]"
  by (simp add: ferrors_clear ferrors_show numeral_2_eq_2)

lemma length_ferrors_validateField:
  "length (ferrors f) \<le> 2 \<Longrightarrow> length (ferrors (snd (validateField f))) \<le> 1"
  by (auto simp: ferrors_validateField split: option.splits)

lemma length_ferrors_step:
  assumes "length (ferrors f) \<le> 1"
  shows "length (ferrors (field_step f e)) \<le> 1"
proof (cases e)
  case Blur
  from assms have "length (ferrors f) \<le> 2" by simp
  then have "length (ferrors (snd (validateField f))) \<le> 1"
    by (rule length_ferrors_validateField)
  with Blur show ?thesis by simp
next
  case Focus
  with assms show ?thesis by (simp add: ferrors_clear)
next
  case (Edit v)
  with assms show ?thesis by simp
qed

lemma length_ferrors_run:
  "length (ferrors f) \<le> 1 \<Longrightarrow> length (ferrors (field_run es f)) \<le> 1"
proof (induction es rule: rev_induct)
  case Nil
  then show ?case by (simp add: field_run_def)
next
  case (snoc e es)
  then have "length (ferrors (field_run es f)) \<le> 1" by simp
  then have "length (ferrors (field_step (field_run es f) e)) \<le> 1"
    by (rule length_ferrors_step)
  then show ?case by (simp add: field_run_def)
qed

text \<open>The example fields.\<close>

lemma parseInt_examples:
  "parseInt (js ''3'') = Num 3" "parseInt (js ''5'') = Num 5" "parseInt (js ''10'') = Num 10"
  by (simp_all add: parseInt_def js_def is_space_def is_digit_def digit_value_def Let_def)

lemma trim_examples:
  "trim (js ''  '') = []" "trim (js ''a@b'') = js ''a@b''" "trim (js ''12-34'') = js ''12-34''"
  "trim (js ''ab'') = js ''ab''" "trim (js ''a@b.co'') = js ''a@b.co''"
  by (simp_all add: trim_def js_def is_space_def)

lemma js_examples:
  "js ''a@b'' \<noteq> []" "js ''12-34'' \<noteq> []" "js ''ab'' \<noteq> []" "js ''a@b.co'' \<noteq> []"
  "js ''text'' \<noteq> js ''email''" "js ''text'' \<noteq> js ''tel''" "js ''email'' \<noteq> js ''tel''"
  "js ''tel'' \<noteq> js ''email''" "js ''textarea'' \<noteq> js ''email''"
  "js ''textarea'' \<noteq> js ''tel''" "length (js ''a@b'') = 3" "length (js ''ab'') = 2"
  by (simp_all add: js_def)

lemma email_invalid: "\<not> validateEmail (js ''a@b'')"
  using email_needs_dot_after_at[of "js ''a@b''" "js ''a''" "js ''b''"]
  by (simp add: js_def)

lemma phone_invalid: "\<not> validatePhone (js ''12-34'')"
  by (simp add: validatePhone_iff js_def is_digit_def)

lemma fails_field_blank:
  "fails Required field_blank" "fails MinLength field_blank"
  by (simp_all add: field_blank_def trim_examples parseInt_examples)

lemma fails_field_bad_email:
  "\<not> fails Required field_bad_email" "fails Email field_bad_email"
  "fails MinLength field_bad_email"
  using email_invalid
  by (simp_all add: field_bad_email_def trim_examples parseInt_examples js_examples)

lemma fails_field_bad_phone:
  "\<not> fails Required field_bad_phone" "\<not> fails Email field_bad_phone"
  "fails Phone field_bad_phone"
  using phone_invalid
  by (simp_all add: field_bad_phone_def trim_examples js_examples)

lemma fails_field_short:
  "\<not> fails Required field_short" "\<not> fails Email field_short"
  "\<not> fails Phone field_short" "fails MinLength field_short"
  by (simp_all add: field_short_def trim_examples parseInt_examples js_examples)

lemma passes_example_input:
  "\<not> fails Required example_input" "\<not> fails Email example_input"
  "\<not> fails Phone example_input" "\<not> fails MinLength example_input"
  using email_example
  by (simp_all add: example_input_def trim_examples js_examples)

text \<open>
  C5. \<open>validateField\<close> goes through the checks in the order required, email, phone,
  min-length: its verdict is false with the message of the first check that fails, whatever
  the later checks would say, and true with no message when none fails. A failing call
  removes up to two annotations and adds one, a passing call removes up to one. So a field
  with at most two annotations before a call has at most one after it, and a field that
  starts with none (or one) carries at most one after any sequence of validations, focus
  events and edits.
\<close>

theorem validateField_order_short_circuit:
  "(fails Required f \<longrightarrow>
      validateField f = (False, showFieldError (clearFieldError f) msg_required)) \<and>
   (\<not> fails Required f \<and> fails Email f \<longrightarrow>
      validateField f = (False, showFieldError (clearFieldError f) msg_email)) \<and>
   (\<not> fails Required f \<and> \<not> fails Email f \<and> fails Phone f \<longrightarrow>
      validateField f = (False, showFieldError (clearFieldError f) msg_phone)) \<and>
   (\<not> fails Required f \<and> \<not> fails Email f \<and> \<not> fails Phone f \<and> fails MinLength f \<longrightarrow>
      validateField f =
        (False, showFieldError (clearFieldError f) (message_of MinLength f))) \<and>
   (\<not> fails Required f \<and> \<not> fails Email f \<and> \<not> fails Phone f \<and> \<not> fails MinLength f \<longrightarrow>
      validateField f = (True, clearFieldError f)) \<and>
   ferrors (showFieldError (clearFieldError f) m) = drop 2 (ferrors f) @ [m] \<and>
   ferrors (clearFieldError f) = drop 1 (ferrors f) \<and>
   (length (ferrors f) \<le> 2 \<longrightarrow> length (ferrors (snd (validateField f))) \<le> 1) \<and>
   (length (ferrors f) \<le> 1 \<longrightarrow> length (ferrors (field_run es f)) \<le> 1)"
  using first_failing_cases[of f] length_ferrors_validateField[of f]
    length_ferrors_run[of f es]
  by (auto simp del: fails.simps
      simp: validateField_first_failing ferrors_clear_show ferrors_clear)

theorem validateField_order_short_circuit_witness:
  "fails Required field_blank \<and> fails MinLength field_blank \<and>
   validateField field_blank =
     (False, field_blank\<lparr>fborder := js ''#ef4444'', ferrors := [msg_required]\<rparr>) \<and>
   length (ferrors field_blank) \<le> 2 \<and>
   length (ferrors (snd (validateField field_blank))) \<le> 1 \<and>
   length (ferrors field_blank) \<le> 1 \<and>
   length (ferrors (field_run [Blur, Edit (js ''ab''), Blur, Focus, Blur] field_blank)) \<le> 1 \<and>
   \<not> fails Required field_bad_email \<and> fails Email field_bad_email \<and>
   fails MinLength field_bad_email \<and>
   validateField field_bad_email =
     (False, field_bad_email\<lparr>fborder := js ''#ef4444'', ferrors := [msg_email]\<rparr>) \<and>
   fails Phone field_bad_phone \<and>
   validateField field_bad_phone =
     (False, field_bad_phone\<lparr>fborder := js ''#ef4444'', ferrors := [msg_phone]\<rparr>) \<and>
   fails MinLength field_short \<and>
   validateField field_short =
     (False, field_short\<lparr>fborder := js ''#ef4444'',
        ferrors := [[77, 237] @ js ''nimo 5 caracteres requeridos'']\<rparr>) \<and>
   \<not> fails Required example_input \<and> \<not> fails Email example_input \<and>
   \<not> fails Phone example_input \<and> \<not> fails MinLength example_input \<and>
   validateField example_input = (True, example_input)"
proof -
  have l: "length (ferrors field_blank) \<le> 2" "length (ferrors field_blank) \<le> 1"
    by (simp_all add: field_blank_def)
  note B = validateField_order_short_circuit[of field_blank _
      "[Blur, Edit (js ''ab''), Blur, Focus, Blur]"]
  note E = validateField_order_short_circuit[of field_bad_email]
  note P = validateField_order_short_circuit[of field_bad_phone]
  note S = validateField_order_short_circuit[of field_short]
  from B fails_field_blank have b:
    "validateField field_blank = (False, showFieldError (clearFieldError field_blank) msg_required)"
    by blast
  from B l have b': "length (ferrors (snd (validateField field_blank))) \<le> 1"
    "length (ferrors (field_run [Blur, Edit (js ''ab''), Blur, Focus, Blur] field_blank)) \<le> 1"
    by blast+
  from E fails_field_bad_email have e:
    "validateField field_bad_email =
       (False, showFieldError (clearFieldError field_bad_email) msg_email)"
    by blast
  from P fails_field_bad_phone have p:
    "validateField field_bad_phone =
       (False, showFieldError (clearFieldError field_bad_phone) msg_phone)"
    by blast
  from S fails_field_short have s:
    "validateField field_short =
       (False, showFieldError (clearFieldError field_short) (message_of MinLength field_short))"
    by blast
  have m: "message_of MinLength field_short = [77, 237] @ js ''nimo 5 caracteres requeridos''"
    by (simp add: field_short_def parseInt_examples msg_minlength_def) (simp add: js_def)
  have "validateField field_blank =
     (False, field_blank\<lparr>fborder := js ''#ef4444'', ferrors := [msg_required]\<rparr>)"
    unfolding b by (simp add: showFieldError_def clearFieldError_def field_blank_def)
  moreover have "validateField field_bad_email =
     (False, field_bad_email\<lparr>fborder := js ''#ef4444'', ferrors := [msg_email]\<rparr>)"
    unfolding e by (simp add: showFieldError_def clearFieldError_def field_bad_email_def)
  moreover have "validateField field_bad_phone =
     (False, field_bad_phone\<lparr>fborder := js ''#ef4444'', ferrors := [msg_phone]\<rparr>)"
    unfolding p by (simp add: showFieldError_def clearFieldError_def field_bad_phone_def)
  moreover have "validateField field_short =
     (False, field_short\<lparr>fborder := js ''#ef4444'',
        ferrors := [[77, 237] @ js ''nimo 5 caracteres requeridos'']\<rparr>)"
    unfolding s m by (simp add: showFieldError_def clearFieldError_def field_short_def)
  moreover have "validateField example_input = (True, example_input)"
  proof -
    from validateField_order_short_circuit[of example_input] passes_example_input
    have "validateField example_input = (True, clearFieldError example_input)" by blast
    then show ?thesis by (simp add: clearFieldError_def example_input_def)
  qed
  ultimately show ?thesis
    using fails_field_blank fails_field_bad_email fails_field_bad_phone fails_field_short l b'
      passes_example_input
    by blast
qed

lemma malformed_never_fails:
  "parseInt a = NaN \<or> (\<exists>n\<le>0. parseInt a = Num n) \<Longrightarrow> \<not> js_less k (parseInt a)"
  by (cases "parseInt a") auto

lemma first_failing_no_minlength:
  "first_failing (f\<lparr>fminlength := None\<rparr>) \<noteq> Some MinLength"
  by (simp add: first_failing_def)

lemma first_failing_ignores:
  assumes "\<not> js_less (length (trim (fvalue f))) (parseInt a)"
  shows "first_failing (f\<lparr>fminlength := Some a\<rparr>) = first_failing (f\<lparr>fminlength := None\<rparr>)"
  using assms by (simp add: first_failing_def)

lemma clear_minlength:
  "clearFieldError (f\<lparr>fminlength := m\<rparr>) = (clearFieldError f)\<lparr>fminlength := m\<rparr>"
  by (simp add: clearFieldError_def)

lemma show_minlength:
  "showFieldError (f\<lparr>fminlength := m\<rparr>) e = (showFieldError f e)\<lparr>fminlength := m\<rparr>"
  by (simp add: showFieldError_def)

lemma validateField_no_fail:
  assumes "\<not> js_less (length (trim (fvalue f))) (parseInt a)"
  shows "validateField (f\<lparr>fminlength := Some a\<rparr>) =
     (fst (validateField (f\<lparr>fminlength := None\<rparr>)),
      (snd (validateField (f\<lparr>fminlength := None\<rparr>)))\<lparr>fminlength := Some a\<rparr>)"
proof (cases "first_failing (f\<lparr>fminlength := None\<rparr>)")
  case None
  with first_failing_ignores[OF assms] show ?thesis
    by (simp add: validateField_first_failing clear_minlength)
next
  case (Some c)
  with first_failing_no_minlength[of f] have "c \<noteq> MinLength" by auto
  then have "message_of c (f\<lparr>fminlength := Some a\<rparr>) = message_of c (f\<lparr>fminlength := None\<rparr>)"
    by (cases c) simp_all
  with Some first_failing_ignores[OF assms] show ?thesis
    by (simp add: validateField_first_failing clear_minlength show_minlength)
qed

lemma clearFieldError_exn_attached: "clearFieldError_exn True f = Inr (clearFieldError f)"
  by (simp add: clearFieldError_exn_def clearFieldError_def)

lemma showFieldError_exn_attached: "showFieldError_exn True f m = Inr (showFieldError f m)"
  by (simp add: showFieldError_exn_def showFieldError_def)

lemma validateField_exn_attached: "validateField_exn True f = Inr (validateField f)"
  by (simp add: validateField_exn_def validateField_def Let_def clearFieldError_exn_attached
      showFieldError_exn_attached show_and_return_false_def split: option.splits)

lemma validateField_exn_detached: "validateField_exn False f = Inl TypeError"
  by (simp add: validateField_exn_def clearFieldError_exn_def Let_def)

lemma digit_value_nonneg: "is_digit c \<Longrightarrow> 0 \<le> digit_value c"
  by (simp add: digit_value_def is_digit_def)

lemma foldl_digits_ge:
  "0 \<le> n \<Longrightarrow> list_all is_digit z \<Longrightarrow> n \<le> foldl (\<lambda>n c. n * 10 + digit_value c) n z"
proof (induction z arbitrary: n)
  case Nil
  then show ?case by simp
next
  case (Cons c z)
  from Cons.prems have d: "0 \<le> digit_value c" by (simp add: digit_value_nonneg)
  with Cons.prems have "0 \<le> n * 10 + digit_value c" by simp
  from Cons.IH[OF this] Cons.prems
  have "n * 10 + digit_value c \<le> foldl (\<lambda>n c. n * 10 + digit_value c) (n * 10 + digit_value c) z"
    by simp
  with d Cons.prems show ?case by simp
qed

lemma parseInt_no_digit:
  assumes "list_all (\<lambda>c. \<not> is_digit c) a"
  shows "parseInt a = NaN"
proof -
  define s where "s = dropWhile is_space a"
  define s1 where "s1 = (if s \<noteq> [] \<and> (hd s = 43 \<or> hd s = 45) then tl s else s)"
  have "set s \<subseteq> set a" unfolding s_def by (auto dest: set_dropWhileD)
  moreover have "set s1 \<subseteq> set s" unfolding s1_def by (auto dest: list.set_sel(2))
  ultimately have n: "\<forall>c \<in> set s1. \<not> is_digit c"
    using assms by (auto simp: list_all_iff)
  have h: "take 2 s1 \<noteq> [48, 120]" "take 2 s1 \<noteq> [48, 88]"
  proof -
    have "is_digit 48" by (simp add: is_digit_def)
    with n have "48 \<notin> set s1" by auto
    then have "48 \<notin> set (take 2 s1)" by (auto dest: in_set_takeD)
    then show "take 2 s1 \<noteq> [48, 120]" "take 2 s1 \<noteq> [48, 88]" by auto
  qed
  have z: "takeWhile is_digit s1 = []"
    using n by (cases s1) auto
  show ?thesis
    unfolding parseInt_def Let_def s_def[symmetric] s1_def[symmetric]
    using h z by simp
qed

lemma parseInt_digits:
  assumes "list_all is_space w" "ds \<noteq> []" "list_all is_digit ds" "hd ds \<noteq> 48"
    "r = [] \<or> \<not> is_digit (hd r)"
  shows "parseInt (w @ ds @ r) = Num (foldl (\<lambda>n c. n * 10 + digit_value c) 0 ds)"
proof -
  from assms(2) obtain c cs where ds: "ds = c # cs" by (cases ds) auto
  with assms(3,4) have c: "is_digit c" "c \<noteq> 48" by simp_all
  then have nsp: "\<not> is_space c" "c \<noteq> 43" "c \<noteq> 45"
    by (auto simp: is_digit_def is_space_def)
  have s: "dropWhile is_space (w @ ds @ r) = ds @ r"
    using assms(1) nsp ds by (simp add: list_all_iff dropWhile_append)
  have z: "takeWhile is_digit (ds @ r) = ds"
  proof -
    have "takeWhile is_digit r = []" using assms(5) by (cases r) auto
    with assms(3) show ?thesis by (simp add: list_all_iff takeWhile_append2)
  qed
  have h: "take 2 (ds @ r) \<noteq> [48, 120]" "take 2 (ds @ r) \<noteq> [48, 88]"
    using ds c by (auto simp: numeral_2_eq_2)
  have e: "ds @ r \<noteq> []" "hd (ds @ r) \<noteq> 43" "hd (ds @ r) \<noteq> 45"
    using ds nsp by simp_all
  show ?thesis
    unfolding parseInt_def Let_def s
    by (simp only: e h z assms(2) if_False if_True simp_thms mult_1)
qed

lemma parseInt_digits_positive:
  assumes "ds \<noteq> []" "list_all is_digit ds" "hd ds \<noteq> 48"
  shows "0 < foldl (\<lambda>n c. n * 10 + digit_value c) 0 ds"
proof -
  from assms(1) obtain c cs where ds: "ds = c # cs" by (cases ds) auto
  with assms have c: "is_digit c" "c \<noteq> 48" "list_all is_digit cs" by simp_all
  then have p: "0 < digit_value c" by (auto simp: digit_value_def is_digit_def)
  then have "digit_value c \<le> foldl (\<lambda>n c. n * 10 + digit_value c) (digit_value c) cs"
    using c(3) by (intro foldl_digits_ge) simp_all
  with p ds show ?thesis by simp
qed

lemma parseInt_negative_number:
  assumes "ds \<noteq> []" "list_all is_digit ds"
  shows "\<exists>n\<le>0. parseInt (45 # ds) = Num n"
proof -
  have nsp: "\<not> is_space 45" by (simp add: is_space_def)
  have z: "takeWhile is_digit ds = ds" using assms(2) by (simp add: list_all_iff)
  have nd: "\<not> is_digit 120" "\<not> is_digit 88" by (simp_all add: is_digit_def)
  have h: "take 2 ds \<noteq> [48, 120]" "take 2 ds \<noteq> [48, 88]"
  proof -
    from assms(2) have "list_all is_digit (take 2 ds)"
      by (auto simp: list_all_iff dest: in_set_takeD)
    with nd show "take 2 ds \<noteq> [48, 120]" "take 2 ds \<noteq> [48, 88]" by auto
  qed
  have "0 \<le> foldl (\<lambda>n c. n * 10 + digit_value c) 0 ds"
    using assms(2) by (intro foldl_digits_ge) simp_all
  then have n: "- 1 * foldl (\<lambda>n c. n * 10 + digit_value c) 0 ds \<le> 0" by simp
  have d: "dropWhile is_space (45 # ds) = 45 # ds" using nsp by simp
  have "parseInt (45 # ds) = Num (- 1 * foldl (\<lambda>n c. n * 10 + digit_value c) 0 ds)"
    unfolding parseInt_def Let_def d
    by (simp only: h z assms(1) list.sel if_False if_True simp_thms list.distinct not_False_eq_True)
  with n show ?thesis by blast
qed

lemma trim_Nil: "trim [] = []"
  by (simp add: trim_def)

lemma minlength_can_fail:
  "(\<exists>v. fails MinLength (f\<lparr>fvalue := v, fminlength := Some a\<rparr>)) \<longleftrightarrow>
   (\<exists>n>0. parseInt a = Num n)"
proof
  assume "\<exists>v. fails MinLength (f\<lparr>fvalue := v, fminlength := Some a\<rparr>)"
  then obtain v where "js_less (length (trim v)) (parseInt a)" by auto
  then show "\<exists>n>0. parseInt a = Num n" by (cases "parseInt a") auto
next
  assume "\<exists>n>0. parseInt a = Num n"
  then have "fails MinLength (f\<lparr>fvalue := [], fminlength := Some a\<rparr>)"
    by (auto simp: trim_Nil)
  then show "\<exists>v. fails MinLength (f\<lparr>fvalue := v, fminlength := Some a\<rparr>)" ..
qed

lemma validateField_same_number:
  assumes "parseInt a = parseInt a'"
  shows "validateField (f\<lparr>fminlength := Some a\<rparr>) =
     (fst (validateField (f\<lparr>fminlength := Some a'\<rparr>)),
      (snd (validateField (f\<lparr>fminlength := Some a'\<rparr>)))\<lparr>fminlength := Some a\<rparr>)"
proof -
  have ff: "first_failing (f\<lparr>fminlength := Some a\<rparr>) = first_failing (f\<lparr>fminlength := Some a'\<rparr>)"
    using assms by (simp add: first_failing_def)
  have m: "message_of c (f\<lparr>fminlength := Some a\<rparr>) = message_of c (f\<lparr>fminlength := Some a'\<rparr>)" for c
    using assms by (cases c) simp_all
  show ?thesis
    by (simp add: validateField_first_failing ff m clear_minlength show_minlength
        split: option.splits)
qed


lemma parseInt_malformed_examples:
  "parseInt (js ''5px'') = Num 5" "parseInt (js ''0x10'') = Num 16"
  by (simp_all add: parseInt_def js_def is_space_def is_digit_def is_hex_digit_def
      digit_value_def Let_def)

lemma not_valid_examples:
  "\<not> valid_non_negative_integer (js ''5px'')" "\<not> valid_non_negative_integer (js ''0x10'')"
  "\<not> valid_non_negative_integer (js ''-5'')" "\<not> valid_non_negative_integer (js ''abc'')"
  by (simp_all add: valid_non_negative_integer_def js_def is_digit_def)

lemma field_malformed_no_minlength:
  "validateField (field_malformed\<lparr>fminlength := None\<rparr>) =
     (True, field_malformed\<lparr>fminlength := None\<rparr>)"
proof -
  have "first_failing (field_malformed\<lparr>fminlength := None\<rparr>) = None"
    by (simp add: first_failing_def field_malformed_def trim_examples js_examples)
  then show ?thesis
    by (simp add: validateField_first_failing) (simp add: clearFieldError_def field_malformed_def)
qed

text \<open>
  C7, as the code has it. \<open>validateField\<close> raises no exception on a field of a form,
  whatever its value and its \<^verbatim>\<open>minlength\<close> attribute: with the exceptions of
  JavaScript as values it returns what \<open>validateField\<close> computes, and the only throw
  is on an element without a parent. An attribute without any digit (as \<^verbatim>\<open>"abc"\<close> and
  the empty attribute) and a negative number (as \<^verbatim>\<open>"-5"\<close>) are malformed and are
  ignored: the min-length check does not fail, and the verdict and the field are those of
  the same field without the attribute. The check can fail exactly when \<^verbatim>\<open>parseInt\<close> of
  the attribute is a positive number. So a malformed attribute that holds a positive number
  between white space and other text (as \<^verbatim>\<open>" 3px"\<close>) is not ignored: it is enforced
  as the number alone would be.
\<close>

theorem validateField_malformed_minlength:
  "validateField_exn True f = Inr (validateField f) \<and>
   validateField_exn False f = Inl TypeError \<and>
   (list_all (\<lambda>c. \<not> is_digit c) a \<or> (\<exists>ds. a = 45 # ds \<and> ds \<noteq> [] \<and> list_all is_digit ds) \<longrightarrow>
      \<not> valid_non_negative_integer a \<and>
      \<not> fails MinLength (f\<lparr>fminlength := Some a\<rparr>) \<and>
      validateField (f\<lparr>fminlength := Some a\<rparr>) =
        (fst (validateField (f\<lparr>fminlength := None\<rparr>)),
         (snd (validateField (f\<lparr>fminlength := None\<rparr>)))\<lparr>fminlength := Some a\<rparr>)) \<and>
   ((\<exists>v. fails MinLength (f\<lparr>fvalue := v, fminlength := Some a\<rparr>)) \<longleftrightarrow>
      (\<exists>n>0. parseInt a = Num n)) \<and>
   (list_all is_space sp \<and> num \<noteq> [] \<and> list_all is_digit num \<and> hd num \<noteq> 48 \<and>
    (rest = [] \<or> \<not> is_digit (hd rest)) \<and> (sp \<noteq> [] \<or> rest \<noteq> []) \<longrightarrow>
      \<not> valid_non_negative_integer (sp @ num @ rest) \<and>
      valid_non_negative_integer num \<and>
      parseInt (sp @ num @ rest) = parseInt num \<and>
      (\<exists>n>0. parseInt num = Num n) \<and>
      fails MinLength (f\<lparr>fvalue := [], fminlength := Some (sp @ num @ rest)\<rparr>) \<and>
      validateField (f\<lparr>fminlength := Some (sp @ num @ rest)\<rparr>) =
        (fst (validateField (f\<lparr>fminlength := Some num\<rparr>)),
         (snd (validateField (f\<lparr>fminlength := Some num\<rparr>)))
           \<lparr>fminlength := Some (sp @ num @ rest)\<rparr>))"
proof (intro conjI impI)
  show "validateField_exn True f = Inr (validateField f)"
    by (rule validateField_exn_attached)
  show "validateField_exn False f = Inl TypeError"
    by (rule validateField_exn_detached)
  show "(\<exists>v. fails MinLength (f\<lparr>fvalue := v, fminlength := Some a\<rparr>)) \<longleftrightarrow>
      (\<exists>n>0. parseInt a = Num n)"
    by (rule minlength_can_fail)
next
  assume m: "list_all (\<lambda>c. \<not> is_digit c) a \<or>
    (\<exists>ds. a = 45 # ds \<and> ds \<noteq> [] \<and> list_all is_digit ds)"
  have "\<not> is_digit 45" by (simp add: is_digit_def)
  with m show "\<not> valid_non_negative_integer a"
    by (cases a) (auto simp: valid_non_negative_integer_def)
  from m have "parseInt a = NaN \<or> (\<exists>n\<le>0. parseInt a = Num n)"
    using parseInt_no_digit[of a] parseInt_negative_number by blast
  then have nf: "\<not> js_less (length (trim (fvalue f))) (parseInt a)"
    by (rule malformed_never_fails)
  then show "\<not> fails MinLength (f\<lparr>fminlength := Some a\<rparr>)" by simp
  show "validateField (f\<lparr>fminlength := Some a\<rparr>) =
        (fst (validateField (f\<lparr>fminlength := None\<rparr>)),
         (snd (validateField (f\<lparr>fminlength := None\<rparr>)))\<lparr>fminlength := Some a\<rparr>)"
    by (rule validateField_no_fail[OF nf])
next
  assume "list_all is_space sp \<and> num \<noteq> [] \<and> list_all is_digit num \<and> hd num \<noteq> 48 \<and>
    (rest = [] \<or> \<not> is_digit (hd rest)) \<and> (sp \<noteq> [] \<or> rest \<noteq> [])"
  then have h: "list_all is_space sp" "num \<noteq> []" "list_all is_digit num" "hd num \<noteq> 48"
    "rest = [] \<or> \<not> is_digit (hd rest)" "sp \<noteq> [] \<or> rest \<noteq> []"
    by simp_all
  show "\<not> valid_non_negative_integer (sp @ num @ rest)"
  proof (cases sp)
    case Nil
    with h(5,6) have "rest \<noteq> []" "\<not> is_digit (hd rest)" by auto
    then have "\<not> list_all is_digit rest" by (cases rest) auto
    then show ?thesis by (simp add: valid_non_negative_integer_def)
  next
    case (Cons c cs)
    with h(1) have "is_space c" by simp
    then have "\<not> is_digit c" by (auto simp: is_space_def is_digit_def)
    with Cons show ?thesis by (simp add: valid_non_negative_integer_def)
  qed
  from h(2,3) show "valid_non_negative_integer num"
    by (simp add: valid_non_negative_integer_def)
  have p: "parseInt (sp @ num @ rest) = Num (foldl (\<lambda>n c. n * 10 + digit_value c) 0 num)"
    by (rule parseInt_digits[OF h(1-5)])
  have q: "parseInt num = Num (foldl (\<lambda>n c. n * 10 + digit_value c) 0 num)"
    using parseInt_digits[of "[]" num "[]"] h(2-4) by simp
  from p q show e: "parseInt (sp @ num @ rest) = parseInt num" by simp
  from q parseInt_digits_positive[OF h(2-4)] show "\<exists>n>0. parseInt num = Num n" by simp
  from p parseInt_digits_positive[OF h(2-4)]
  show "fails MinLength (f\<lparr>fvalue := [], fminlength := Some (sp @ num @ rest)\<rparr>)"
    by (simp add: trim_Nil)
  show "validateField (f\<lparr>fminlength := Some (sp @ num @ rest)\<rparr>) =
        (fst (validateField (f\<lparr>fminlength := Some num\<rparr>)),
         (snd (validateField (f\<lparr>fminlength := Some num\<rparr>)))
           \<lparr>fminlength := Some (sp @ num @ rest)\<rparr>)"
    by (rule validateField_same_number[OF e])
qed

theorem validateField_malformed_minlength_witness:
  "(\<exists>ds. js ''-5'' = 45 # ds \<and> ds \<noteq> [] \<and> list_all is_digit ds) \<and>
   \<not> valid_non_negative_integer (js ''-5'') \<and>
   validateField (field_malformed\<lparr>fminlength := Some (js ''-5'')\<rparr>) =
     (True, field_malformed\<lparr>fminlength := Some (js ''-5'')\<rparr>) \<and>
   list_all is_space [] \<and> js ''5'' \<noteq> [] \<and> list_all is_digit (js ''5'') \<and>
   hd (js ''5'') \<noteq> 48 \<and> \<not> is_digit (hd (js ''px'')) \<and> js ''px'' \<noteq> [] \<and>
   \<not> valid_non_negative_integer (js ''5px'') \<and>
   parseInt (js ''5px'') = parseInt (js ''5'') \<and>
   fails MinLength (field_malformed\<lparr>fvalue := []\<rparr>) \<and>
   validateField_exn True field_malformed = Inr (validateField field_malformed) \<and>
   validateField_exn False field_malformed = Inl TypeError"
proof -
  have n: "\<exists>ds. js ''-5'' = 45 # ds \<and> ds \<noteq> [] \<and> list_all is_digit ds"
    by (simp add: js_def is_digit_def)
  have e: "list_all is_space []" "js ''5'' \<noteq> []" "list_all is_digit (js ''5'')"
    "hd (js ''5'') \<noteq> 48" "\<not> is_digit (hd (js ''px''))" "js ''px'' \<noteq> []"
    by (simp_all add: js_def is_digit_def)
  have a: "[] @ js ''5'' @ js ''px'' = js ''5px''" by (simp add: js_def)
  have m: "field_malformed\<lparr>fvalue := [], fminlength := Some (js ''5px'')\<rparr> =
    field_malformed\<lparr>fvalue := []\<rparr>"
    by (simp add: field_malformed_def)
  note N = validateField_malformed_minlength[where f = field_malformed and a = "js ''-5''"
      and sp = "[]" and num = "js ''5''" and rest = "js ''px''"]
  from N n have "\<not> valid_non_negative_integer (js ''-5'')" by blast
  moreover from N n have "validateField (field_malformed\<lparr>fminlength := Some (js ''-5'')\<rparr>) =
     (True, field_malformed\<lparr>fminlength := Some (js ''-5'')\<rparr>)"
    by (simp add: field_malformed_no_minlength)
  moreover from N e have "\<not> valid_non_negative_integer (js ''5px'')"
    unfolding a by blast
  moreover from N e have "parseInt (js ''5px'') = parseInt (js ''5'')"
    unfolding a by blast
  moreover from N e have "fails MinLength (field_malformed\<lparr>fvalue := []\<rparr>)"
    unfolding a m by blast
  moreover from N have "validateField_exn True field_malformed = Inr (validateField field_malformed)"
    by blast
  moreover from N have "validateField_exn False field_malformed = Inl TypeError"
    by blast
  ultimately show ?thesis using n e by blast
qed

text \<open>
  C7 as stated fails on a malformed attribute that begins with a number. With
  \<^verbatim>\<open>minlength="5px"\<close> the value \<^verbatim>\<open>ab\<close> is rejected with the
  message that asks for at least 5 characters, and the same field without the attribute is
  accepted; \<^verbatim>\<open>minlength="0x10"\<close> is read as 16.
\<close>

theorem malformed_minlength_is_enforced:
  "fminlength field_malformed = Some (js ''5px'') \<and>
   \<not> valid_non_negative_integer (js ''5px'') \<and>
   parseInt (js ''5px'') = Num 5 \<and>
   fails MinLength field_malformed \<and>
   validateField field_malformed =
     (False,
      field_malformed\<lparr>fborder := js ''#ef4444'',
        ferrors := [[77, 237] @ js ''nimo 5 caracteres requeridos'']\<rparr>) \<and>
   validateField (field_malformed\<lparr>fminlength := None\<rparr>) =
     (True, field_malformed\<lparr>fminlength := None\<rparr>) \<and>
   \<not> valid_non_negative_integer (js ''0x10'') \<and>
   parseInt (js ''0x10'') = Num 16 \<and>
   fails MinLength (field_malformed\<lparr>fminlength := Some (js ''0x10'')\<rparr>)"
proof -
  have f: "fails MinLength field_malformed"
    by (simp add: field_malformed_def trim_examples parseInt_malformed_examples js_examples)
  have g: "fails MinLength (field_malformed\<lparr>fminlength := Some (js ''0x10'')\<rparr>)"
    by (simp add: field_malformed_def trim_examples parseInt_malformed_examples js_examples)
  have "first_failing field_malformed = Some MinLength"
    using f by (simp add: first_failing_def field_malformed_def trim_examples js_examples)
  moreover have "message_of MinLength field_malformed = msg_minlength (Num 5)"
    by (simp add: field_malformed_def parseInt_malformed_examples)
  moreover have "msg_minlength (Num 5) = [77, 237] @ js ''nimo 5 caracteres requeridos''"
    by (simp add: msg_minlength_def js_def)
  ultimately have v: "validateField field_malformed =
     (False,
      field_malformed\<lparr>fborder := js ''#ef4444'',
        ferrors := [[77, 237] @ js ''nimo 5 caracteres requeridos'']\<rparr>)"
    by (simp add: validateField_first_failing)
       (simp add: field_malformed_def clearFieldError_def showFieldError_def)
  have m: "fminlength field_malformed = Some (js ''5px'')"
    by (simp add: field_malformed_def)
  from m f g v field_malformed_no_minlength not_valid_examples parseInt_malformed_examples
  show ?thesis by blast
qed

section \<open>The notification centre: what every reachable state satisfies\<close>

lemma wf_initial: "wf_center initial"
  by (simp add: wf_center_def initial_def)

lemma body_show:
  "body (showNotification v m t s) =
     drop 1 (body s) @ [\<lparr>nid = next_id s, ntext = m, ntype = t, nanimation = SlideInRight\<rparr>]"
  by (simp add: showNotification_def insertNotification_def removeExisting_def)

lemma timers_show:
  "timers (showNotification v m t s) =
     timers s @ [\<lparr>tdelay = dismiss_after v, tcallback = AutoRemove (next_id s)\<rparr>]"
  by (simp add: showNotification_def insertNotification_def removeExisting_def)

lemma next_id_show: "next_id (showNotification v m t s) = next_id s + 1"
  by (simp add: showNotification_def insertNotification_def removeExisting_def)

lemma body_show_wf:
  "length (body s) \<le> 1 \<Longrightarrow>
   body (showNotification v m t s) =
     [\<lparr>nid = next_id s, ntext = m, ntype = t, nanimation = SlideInRight\<rparr>]"
  by (simp add: body_show)


lemma wf_show: "wf_center s \<Longrightarrow> wf_center (showNotification v m t s)"
  unfolding wf_center_def body_show timers_show next_id_show
  by (auto simp: list_all_iff dest: in_set_dropD)

lemma wf_slideOut: "wf_center s \<Longrightarrow> wf_center (slideOut i s)"
  by (auto simp: wf_center_def slideOut_def list_all_iff)

lemma wf_setTimeout:
  "wf_center s \<Longrightarrow> element_of c < next_id s \<Longrightarrow> wf_center (setTimeout c d s)"
  by (auto simp: wf_center_def setTimeout_def list_all_iff)

lemma next_id_slideOut: "next_id (slideOut i s) = next_id s"
  by (simp add: slideOut_def)

lemma wf_run_callback:
  "wf_center s \<Longrightarrow> element_of c < next_id s \<Longrightarrow> wf_center (run_callback v c s)"
proof (cases c)
  case (AutoRemove i)
  assume "wf_center s" "element_of c < next_id s"
  with AutoRemove show ?thesis
    by (cases v) (simp_all add: wf_setTimeout wf_slideOut next_id_slideOut)
next
  case (RemoveNode i)
  assume w: "wf_center s"
  from w have "length (body s) \<le> 1"
    by (simp add: wf_center_def)
  then have "length (filter (\<lambda>n. nid n \<noteq> i) (body s)) \<le> 1"
    by (rule le_trans[OF length_filter_le])
  with w RemoveNode show ?thesis
    by (auto simp: wf_center_def list_all_iff)
qed

lemma wf_closeClick: "wf_center s \<Longrightarrow> wf_center (closeClick v i s)"
proof (cases "v = FormFeedback \<and> i \<in> nid ` set (body s)")
  case True
  assume w: "wf_center s"
  from True w have "i < next_id s"
    by (auto simp: wf_center_def list_all_iff)
  with True w show ?thesis
    by (simp add: closeClick_def wf_setTimeout wf_slideOut next_id_slideOut)
next
  case False
  then have "closeClick v i s = s" by (auto simp: closeClick_def)
  moreover assume "wf_center s"
  ultimately show ?thesis by simp
qed

lemma wf_remove_timer: "wf_center s \<Longrightarrow> wf_center (s\<lparr>timers := remove1 t (timers s)\<rparr>)"
  by (auto simp: wf_center_def list_all_iff dest: notin_set_remove1)

lemma wf_step: "wf_center s \<Longrightarrow> wf_center (step v s e)"
proof (cases e)
  case (Show m t)
  assume "wf_center s"
  with Show show ?thesis by (simp add: wf_show)
next
  case (Fire t)
  assume w: "wf_center s"
  show ?thesis
  proof (cases "t \<in> set (timers s)")
    case True
    with w have "element_of (tcallback t) < next_id s"
      by (simp add: wf_center_def list_all_iff)
    with True Fire wf_remove_timer[OF w, of t] show ?thesis
      by (simp add: wf_run_callback)
  next
    case False
    with Fire w show ?thesis by simp
  qed
next
  case (CloseClick i)
  assume "wf_center s"
  with CloseClick show ?thesis by (simp add: wf_closeClick)
qed


lemma wf_run: "wf_center s \<Longrightarrow> wf_center (run v es s)"
  by (induction es rule: rev_induct) (simp_all add: run_def wf_step)

lemma wf_reachable: "wf_center (run v es initial)"
  by (rule wf_run[OF wf_initial])

lemma reachable_body: "length (body (run v es initial)) \<le> 1"
  using wf_reachable[of v es] by (simp add: wf_center_def)

lemma body_removeExisting: "length (body s) \<le> 1 \<Longrightarrow> body (removeExisting s) = []"
  by (simp add: removeExisting_def)

text \<open>
  C8. In every state the page reaches from a display without notification, whatever calls,
  timers and clicks came before, at most one notification is on display. A call of
  \<open>showNotification\<close> first removes the one on display, so that none is left, and then
  inserts the new one, which is alone on display after the call; after two calls in a row
  the second notification is alone on display.
\<close>

theorem showNotification_at_most_one:
  "length (body (run v es initial)) \<le> 1 \<and>
   body (removeExisting (run v es initial)) = [] \<and>
   body (showNotification v m t (run v es initial)) =
     [\<lparr>nid = next_id (run v es initial), ntext = m, ntype = t, nanimation = SlideInRight\<rparr>] \<and>
   body (showNotification v m' t' (showNotification v m t (run v es initial))) =
     [\<lparr>nid = next_id (run v es initial) + 1, ntext = m', ntype = t',
       nanimation = SlideInRight\<rparr>]"
proof -
  let ?s = "run v es initial"
  have l: "length (body ?s) \<le> 1" by (rule reachable_body)
  have "wf_center (showNotification v m t ?s)" by (rule wf_show[OF wf_reachable])
  then have l': "length (body (showNotification v m t ?s)) \<le> 1"
    by (simp add: wf_center_def)
  show ?thesis
    using l body_removeExisting[OF l] body_show_wf[OF l, of v m t]
      body_show_wf[OF l', of v m' t'] next_id_show[of v m t ?s]
    by simp
qed

theorem showNotification_at_most_one_witness:
  "length (body (run FormFeedback [Show (js ''a'') Info] initial)) \<le> 1 \<and>
   body (run FormFeedback [Show (js ''a'') Info] initial) =
     [\<lparr>nid = 0, ntext = js ''a'', ntype = Info, nanimation = SlideInRight\<rparr>] \<and>
   body (removeExisting (run FormFeedback [Show (js ''a'') Info] initial)) = [] \<and>
   body (showNotification FormFeedback (js ''b'') Error
           (run FormFeedback [Show (js ''a'') Info] initial)) =
     [\<lparr>nid = 1, ntext = js ''b'', ntype = Error, nanimation = SlideInRight\<rparr>]"
proof -
  have n: "next_id (run FormFeedback [Show (js ''a'') Info] initial) = 1"
    by (simp add: run_def next_id_show initial_def)
  have b: "body (run FormFeedback [Show (js ''a'') Info] initial) =
     [\<lparr>nid = 0, ntext = js ''a'', ntype = Info, nanimation = SlideInRight\<rparr>]"
    by (simp add: run_def body_show initial_def)
  from showNotification_at_most_one[of FormFeedback "[Show (js ''a'') Info]" "js ''b''" Error]
  show ?thesis unfolding n using b by simp
qed






section \<open>The submit handler\<close>

lemma validateField_keeps:
  "fname (snd (validateField f)) = fname f \<and> fvalue (snd (validateField f)) = fvalue f \<and>
   fdefault (snd (validateField f)) = fdefault f \<and> ftype (snd (validateField f)) = ftype f \<and>
   fdisabled (snd (validateField f)) = fdisabled f \<and>
   fchecked (snd (validateField f)) = fchecked f \<and>
   fdefaultChecked (snd (validateField f)) = fdefaultChecked f"
  by (simp add: validateField_first_failing clearFieldError_def showFieldError_def
      split: option.splits)

lemma validate_inputs_eq:
  "validate_inputs fs b =
     (b \<and> list_all (\<lambda>f. fst (validateField f)) fs, map (\<lambda>f. snd (validateField f)) fs)"
  by (induction fs arbitrary: b) (auto simp: case_prod_unfold Let_def)

lemma FormData_validated:
  "FormData_entries (map (\<lambda>f. snd (validateField f)) fs) = FormData_entries fs"
  by (induction fs) (simp_all add: validateField_keeps)

lemma submit_start_invalid:
  assumes "\<not> all_valid p"
  shows "submit_start v p =
     Finished (notify v msg_fix_errors Error
       (p\<lparr>trace := trace p @ [PreventDefault],
          inputs := map (\<lambda>f. snd (validateField f)) (inputs p)\<rparr>))"
  using assms by (simp add: submit_start_def validate_inputs_eq all_valid_def Let_def)

lemma submit_start_no_button:
  assumes "all_valid p" "submitBtn p = None"
  shows "submit_start v p =
     Raised TypeError
       (p\<lparr>trace := trace p @ [PreventDefault],
          inputs := map (\<lambda>f. snd (validateField f)) (inputs p)\<rparr>)"
  using assms by (simp add: submit_start_def validate_inputs_eq all_valid_def Let_def)

lemma submit_start_valid:
  assumes "all_valid p" "submitBtn p = Some b"
  shows "submit_start v p =
     Awaiting \<lparr>pdata = Object_fromEntries (FormData_entries (inputs p)),
               originalBtnText = innerHTML b\<rparr>
       (p\<lparr>trace := trace p @ [PreventDefault, Transmission 2000],
          inputs := map (\<lambda>f. snd (validateField f)) (inputs p),
          submitBtn := Some \<lparr>innerHTML = label_sending, disabled = True\<rparr>\<rparr>)"
  using assms
  by (simp add: submit_start_def validate_inputs_eq all_valid_def Let_def FormData_validated)

lemma trace_notify: "trace (notify v m t p) = trace p @ [Notified m t]"
  by (simp add: notify_def)

lemma submitBtn_notify: "submitBtn (notify v m t p) = submitBtn p"
  by (simp add: notify_def)

lemma inputs_notify: "inputs (notify v m t p) = inputs p"
  by (simp add: notify_def)

lemma center_notify: "center (notify v m t p) = showNotification v m t (center p)"
  by (simp add: notify_def)

lemmas notify_simps = trace_notify submitBtn_notify inputs_notify center_notify

lemma try_block_rejected:
  "try_block v sm cb (Rejected e) k p = (Some e, p)"
  by (simp add: try_block_def)

lemma try_block_resolved:
  "try_block v sm cb Resolved k p =
     (case cb of
        None \<Rightarrow> None
      | Some g \<Rightarrow> (case g (pdata k) of Returns \<Rightarrow> None | Throws e \<Rightarrow> Some e),
      p\<lparr>trace := trace p @ [ConsoleLog (pdata k), Notified (or_default sm msg_sent) Success] @
                 (case cb of None \<Rightarrow> [] | Some g \<Rightarrow> [OnSuccess (pdata k)]),
        center := showNotification v (or_default sm msg_sent) Success (center p),
        inputs := map (\<lambda>f. f\<lparr>fvalue := fdefault f, fchecked := fdefaultChecked f\<rparr>) (inputs p)\<rparr>)"
  by (simp add: try_block_def Let_def notify_def form_reset_def split: option.splits)

lemma trace_submit_resume:
  "trace (submit_resume v sm cb st k p) = trace p @ resume_effects sm cb st (pdata k)"
  by (cases st)
     (simp_all add: submit_resume_def try_block_rejected try_block_resolved finally_block_def
        catch_block_def notify_simps resume_effects_def split: option.splits outcome.splits)

lemma submitBtn_submit_resume:
  "submitBtn (submit_resume v sm cb st k p) =
     map_option (\<lambda>btn. btn\<lparr>innerHTML := originalBtnText k, disabled := False\<rparr>) (submitBtn p)"
  by (cases st)
     (simp_all add: submit_resume_def try_block_rejected try_block_resolved finally_block_def
        catch_block_def notify_simps split: option.splits outcome.splits)



lemma center_submit_resume_rejected:
  "center (submit_resume v sm cb (Rejected e) k p) = showNotification v msg_failed Error (center p)"
  by (simp add: submit_resume_def try_block_rejected finally_block_def
        catch_block_def notify_simps)

lemma new_effects_append: "trace q = trace p @ es \<Longrightarrow> new_effects p q = es"
  by (simp add: new_effects_def)

lemma handle_invalid:
  assumes "\<not> all_valid p"
  shows "handleFormSubmission v sm cb tr p =
     (None, notify v msg_fix_errors Error
       (p\<lparr>trace := trace p @ [PreventDefault],
          inputs := map (\<lambda>f. snd (validateField f)) (inputs p)\<rparr>))"
  by (simp add: handleFormSubmission_def submit_start_invalid[OF assms])

lemma handle_no_button:
  assumes "all_valid p" "submitBtn p = None"
  shows "handleFormSubmission v sm cb tr p =
     (Some TypeError,
      p\<lparr>trace := trace p @ [PreventDefault],
        inputs := map (\<lambda>f. snd (validateField f)) (inputs p)\<rparr>)"
  by (simp add: handleFormSubmission_def submit_start_no_button[OF assms])

lemma handle_valid:
  assumes "all_valid p" "submitBtn p = Some b"
  shows "handleFormSubmission v sm cb tr p =
     (None,
      submit_resume v sm cb (tr (Object_fromEntries (FormData_entries (inputs p))))
        \<lparr>pdata = Object_fromEntries (FormData_entries (inputs p)),
         originalBtnText = innerHTML b\<rparr>
        (p\<lparr>trace := trace p @ [PreventDefault, Transmission 2000],
           inputs := map (\<lambda>f. snd (validateField f)) (inputs p),
           submitBtn := Some \<lparr>innerHTML = label_sending, disabled = True\<rparr>\<rparr>))"
  by (simp add: handleFormSubmission_def submit_start_valid[OF assms])

lemma new_effects_valid:
  assumes "all_valid p" "submitBtn p = Some b"
  shows "new_effects p (snd (handleFormSubmission v sm cb tr p)) =
     [PreventDefault, Transmission 2000] @
     resume_effects sm cb (tr (Object_fromEntries (FormData_entries (inputs p))))
       (Object_fromEntries (FormData_entries (inputs p)))"
  by (rule new_effects_append) (simp add: handle_valid[OF assms] trace_submit_resume)

lemma no_transmission_in_resume: "filter is_transmission (resume_effects sm cb st d) = []"
  by (simp add: resume_effects_def split: settlement.splits option.splits outcome.splits)

lemma button_eq: "(b::button)\<lparr>innerHTML := x, disabled := y\<rparr> = \<lparr>innerHTML = x, disabled = y\<rparr>"
  by (cases b) simp

lemma awaiting_iff:
  "(\<exists>k q. submit_start v p = Awaiting k q) \<longleftrightarrow> all_valid p \<and> submitBtn p \<noteq> None"
proof (cases "all_valid p")
  case False
  then show ?thesis by (simp add: submit_start_invalid)
next
  case True
  then show ?thesis
    by (cases "submitBtn p") (simp_all add: submit_start_no_button submit_start_valid)
qed



lemma or_default_cases:
  "or_default None t = t \<and> (m \<noteq> [] \<longrightarrow> or_default (Some m) t = m) \<and> or_default (Some []) t = t"
  by (simp add: or_default_def)



text \<open>The example page: its field is valid, the field of the other page is not.\<close>

lemma trim_example: "trim (js ''a@b.co'') = js ''a@b.co''"
  by (simp add: trim_def js_def is_space_def)

lemma first_failing_example: "first_failing example_input = None"
proof -
  have "js ''email'' \<noteq> js ''tel''" "js ''a@b.co'' \<noteq> []"
    by (simp_all add: js_def)
  with email_example show ?thesis
    by (simp add: first_failing_def example_input_def trim_example)
qed

lemma validate_example_input: "validateField example_input = (True, example_input)"
  by (simp add: validateField_first_failing first_failing_example)
     (simp add: clearFieldError_def example_input_def)

lemma all_valid_example: "all_valid example_page"
  by (simp add: all_valid_def example_page_def validate_example_input)

lemma trim_invalid: "trim (js ''a@b'') = js ''a@b''"
  by (simp add: trim_def js_def is_space_def)

lemma not_all_valid_invalid: "\<not> all_valid invalid_page"
proof -
  have "fails Email (example_input\<lparr>fvalue := js ''a@b''\<rparr>)"
    using email_invalid by (simp add: example_input_def trim_invalid) (simp add: js_def)
  moreover have "\<not> fails Required (example_input\<lparr>fvalue := js ''a@b''\<rparr>)"
    by (simp add: example_input_def trim_invalid) (simp add: js_def)
  ultimately have "first_failing (example_input\<lparr>fvalue := js ''a@b''\<rparr>) = Some Email"
    by (simp add: first_failing_def)
  then show ?thesis
    by (simp add: all_valid_def invalid_page_def example_page_def fst_validateField)
qed

lemma button_example: "submitBtn example_page = Some \<lparr>innerHTML = js ''Enviar'', disabled = False\<rparr>"
  by (simp add: example_page_def)



text \<open>
  C1, as the code has it. A submit event on a form whose fields are all valid, and which
  has the submit button the handler looks up with \<^verbatim>\<open>button[type="submit"]\<close>, starts
  the transmission exactly once. A submit event on a form with an invalid field starts no
  transmission: the handler prevents the default action, shows the one notification
  \<^verbatim>\<open>Por favor corrige los errores en el formulario\<close> and returns, leaving the submit
  button as it was.
\<close>

theorem submission_transmits_iff_valid:
  "(all_valid p \<and> submitBtn p \<noteq> None \<longrightarrow>
      length (filter is_transmission
        (new_effects p (snd (handleFormSubmission v sm cb tr p)))) = 1) \<and>
   (\<not> all_valid p \<longrightarrow>
      filter is_transmission (new_effects p (snd (handleFormSubmission v sm cb tr p))) = [] \<and>
      new_effects p (snd (handleFormSubmission v sm cb tr p)) =
        [PreventDefault, Notified msg_fix_errors Error] \<and>
      center (snd (handleFormSubmission v sm cb tr p)) =
        showNotification v msg_fix_errors Error (center p) \<and>
      submitBtn (snd (handleFormSubmission v sm cb tr p)) = submitBtn p \<and>
      fst (handleFormSubmission v sm cb tr p) = None)"
proof (intro conjI impI)
  assume "all_valid p \<and> submitBtn p \<noteq> None"
  then obtain b where "all_valid p" "submitBtn p = Some b" by auto
  then show "length (filter is_transmission
        (new_effects p (snd (handleFormSubmission v sm cb tr p)))) = 1"
    by (simp add: new_effects_valid no_transmission_in_resume)
next
  assume i: "\<not> all_valid p"
  have n: "new_effects p (snd (handleFormSubmission v sm cb tr p)) =
        [PreventDefault, Notified msg_fix_errors Error]"
    by (rule new_effects_append) (simp add: handle_invalid[OF i] notify_simps)
  then show "new_effects p (snd (handleFormSubmission v sm cb tr p)) =
        [PreventDefault, Notified msg_fix_errors Error]" .
  from n show "filter is_transmission
      (new_effects p (snd (handleFormSubmission v sm cb tr p))) = []" by simp
  show "center (snd (handleFormSubmission v sm cb tr p)) =
        showNotification v msg_fix_errors Error (center p)"
    by (simp add: handle_invalid[OF i] notify_simps)
  show "submitBtn (snd (handleFormSubmission v sm cb tr p)) = submitBtn p"
    by (simp add: handle_invalid[OF i] notify_simps)
  show "fst (handleFormSubmission v sm cb tr p) = None"
    by (simp add: handle_invalid[OF i])
qed

theorem submission_transmits_iff_valid_witness:
  "all_valid example_page \<and> submitBtn example_page \<noteq> None \<and>
   length (filter is_transmission
     (new_effects example_page
       (snd (handleFormSubmission FormFeedback None None simulated_api_call example_page)))) = 1 \<and>
   \<not> all_valid invalid_page \<and>
   new_effects invalid_page
     (snd (handleFormSubmission FormFeedback None None simulated_api_call invalid_page)) =
     [PreventDefault, Notified msg_fix_errors Error] \<and>
   body (center
     (snd (handleFormSubmission FormFeedback None None simulated_api_call invalid_page))) =
     [\<lparr>nid = 0, ntext = msg_fix_errors, ntype = Error, nanimation = SlideInRight\<rparr>]"
proof -
  have b: "submitBtn example_page \<noteq> None" by (simp add: example_page_def)
  have c: "body (showNotification FormFeedback msg_fix_errors Error (center invalid_page)) =
     [\<lparr>nid = 0, ntext = msg_fix_errors, ntype = Error, nanimation = SlideInRight\<rparr>]"
    by (simp add: body_show invalid_page_def example_page_def initial_def)
  from submission_transmits_iff_valid[of example_page FormFeedback None None simulated_api_call]
    submission_transmits_iff_valid[of invalid_page FormFeedback None None simulated_api_call]
    all_valid_example b not_all_valid_invalid c
  show ?thesis by simp
qed

text \<open>
  C1 as stated fails on a form whose fields are all valid and which has no element matching
  \<^verbatim>\<open>button[type="submit"]\<close>: the handler dereferences \<^verbatim>\<open>null\<close>, throws a
  \<^verbatim>\<open>TypeError\<close> before the \<^verbatim>\<open>try\<close> block and starts no transmission.
\<close>

theorem valid_form_without_button_not_transmitted:
  "all_valid no_button_page \<and>
   handleFormSubmission FormFeedback None None simulated_api_call no_button_page =
     (Some TypeError, no_button_page\<lparr>trace := [PreventDefault]\<rparr>) \<and>
   filter is_transmission
     (new_effects no_button_page
       (snd (handleFormSubmission FormFeedback None None simulated_api_call no_button_page))) = []"
proof -
  have v: "all_valid no_button_page"
    using all_valid_example by (simp add: all_valid_def no_button_page_def)
  have n: "submitBtn no_button_page = None" by (simp add: no_button_page_def)
  have h: "handleFormSubmission FormFeedback None None simulated_api_call no_button_page =
     (Some TypeError, no_button_page\<lparr>trace := [PreventDefault]\<rparr>)"
    unfolding handle_no_button[OF v n]
    by (simp add: no_button_page_def example_page_def validate_example_input)
  from v h show ?thesis by (simp add: new_effects_def no_button_page_def example_page_def)
qed

text \<open>
  C2. The handler waits for the transmission exactly when all fields are valid and the
  submit button exists. The button is then disabled and shows the busy label. However the
  transmission settles, whatever the callback does and whatever state the page is in by
  then, the rest of the handler leaves the button enabled with the label it had before the
  submission.
\<close>

theorem submit_button_restored:
  "((\<exists>k q. submit_start v p = Awaiting k q) \<longleftrightarrow> all_valid p \<and> submitBtn p \<noteq> None) \<and>
   (submit_start v p = Awaiting k q \<and> submitBtn p = Some b \<longrightarrow>
      submitBtn q = Some \<lparr>innerHTML = label_sending, disabled = True\<rparr> \<and>
      originalBtnText k = innerHTML b \<and>
      (submitBtn q' \<noteq> None \<longrightarrow>
         submitBtn (submit_resume v sm cb st k q') =
           Some \<lparr>innerHTML = innerHTML b, disabled = False\<rparr>) \<and>
      submitBtn (snd (handleFormSubmission v sm cb tr p)) =
        Some \<lparr>innerHTML = innerHTML b, disabled = False\<rparr>)"
proof (intro conjI impI)
  show "(\<exists>k q. submit_start v p = Awaiting k q) \<longleftrightarrow> all_valid p \<and> submitBtn p \<noteq> None"
    by (rule awaiting_iff)
next
  assume "submit_start v p = Awaiting k q \<and> submitBtn p = Some b"
  then have a: "submit_start v p = Awaiting k q" and b: "submitBtn p = Some b" by simp_all
  from a awaiting_iff[of v p] have v: "all_valid p" by auto
  from a submit_start_valid[OF v b, of v]
  have k: "k = \<lparr>pdata = Object_fromEntries (FormData_entries (inputs p)),
               originalBtnText = innerHTML b\<rparr>"
    and q: "q = p\<lparr>trace := trace p @ [PreventDefault, Transmission 2000],
          inputs := map (\<lambda>f. snd (validateField f)) (inputs p),
          submitBtn := Some \<lparr>innerHTML = label_sending, disabled = True\<rparr>\<rparr>"
    by simp_all
  from q show "submitBtn q = Some \<lparr>innerHTML = label_sending, disabled = True\<rparr>" by simp
  from k show o: "originalBtnText k = innerHTML b" by simp
  show "submitBtn (snd (handleFormSubmission v sm cb tr p)) =
        Some \<lparr>innerHTML = innerHTML b, disabled = False\<rparr>"
    by (simp add: handle_valid[OF v b] submitBtn_submit_resume)
  assume "submitBtn q' \<noteq> None"
  then obtain b' where "submitBtn q' = Some b'" by auto
  then show "submitBtn (submit_resume v sm cb st k q') =
           Some \<lparr>innerHTML = innerHTML b, disabled = False\<rparr>"
    by (simp add: submitBtn_submit_resume o button_eq)
qed

theorem submit_button_restored_witness:
  "submit_start FormFeedback example_page =
     Awaiting
       \<lparr>pdata = Object_fromEntries (FormData_entries [example_input]),
        originalBtnText = js ''Enviar''\<rparr>
       \<lparr>inputs = [example_input],
        submitBtn = Some \<lparr>innerHTML = label_sending, disabled = True\<rparr>,
        center = initial, trace = [PreventDefault, Transmission 2000]\<rparr> \<and>
   submitBtn
     (submit_resume FormFeedback None None (Rejected (Thrown 1))
       \<lparr>pdata = Object_fromEntries (FormData_entries [example_input]),
        originalBtnText = js ''Enviar''\<rparr>
       \<lparr>inputs = [example_input],
        submitBtn = Some \<lparr>innerHTML = label_sending, disabled = True\<rparr>,
        center = initial, trace = [PreventDefault, Transmission 2000]\<rparr>) =
     Some \<lparr>innerHTML = js ''Enviar'', disabled = False\<rparr> \<and>
   submitBtn (snd (handleFormSubmission FormFeedback None None simulated_api_call example_page)) =
     Some \<lparr>innerHTML = js ''Enviar'', disabled = False\<rparr>"
proof -
  let ?k = "\<lparr>pdata = Object_fromEntries (FormData_entries [example_input]),
        originalBtnText = js ''Enviar''\<rparr>"
  let ?q = "\<lparr>inputs = [example_input],
        submitBtn = Some \<lparr>innerHTML = label_sending, disabled = True\<rparr>,
        center = initial, trace = [PreventDefault, Transmission 2000]\<rparr>"
  have s: "submit_start FormFeedback example_page = Awaiting ?k ?q"
    by (simp add: submit_start_valid[OF all_valid_example button_example])
       (simp add: example_page_def validate_example_input)
  have n: "submitBtn ?q \<noteq> None" by simp
  from submit_button_restored[where v = FormFeedback and p = example_page and k = ?k
      and q = ?q and q' = ?q and sm = None and cb = None and st = "Rejected (Thrown 1)"
      and tr = simulated_api_call and b = "\<lparr>innerHTML = js ''Enviar'', disabled = False\<rparr>"]
    s n button_example
  show ?thesis by simp
qed














end
